theory Spec2Isabelle
  imports Complex_Main "HOL-Library.Sublist"
begin

section \<open>Python strings\<close>

text \<open>
  A Python \<open>str\<close> is a sequence of Unicode code points, and \<open>len\<close>, slicing, \<open>strip\<close>,
  \<open>replace\<close> and \<open>split\<close> all count code points. A string is therefore modelled as the
  list of its code points; \<open>lit\<close> embeds an ASCII literal of the source.
\<close>

type_synonym pystr = "nat list"

definition lit :: "string \<Rightarrow> pystr" where
  "lit s = map of_char s"

text \<open>
  \<open>str.isspace\<close> for one code point, as CPython's Unicode database has it: the characters
  that \<open>str.strip()\<close> removes when it is called without an argument.
\<close>

definition isspace :: "nat \<Rightarrow> bool" where
  "isspace c \<longleftrightarrow>
     (0x09 \<le> c \<and> c \<le> 0x0D) \<or> (0x1C \<le> c \<and> c \<le> 0x20) \<or> c = 0x85 \<or> c = 0xA0 \<or>
     c = 0x1680 \<or> (0x2000 \<le> c \<and> c \<le> 0x200A) \<or> c = 0x2028 \<or> c = 0x2029 \<or>
     c = 0x202F \<or> c = 0x205F \<or> c = 0x3000"

text \<open>\<open>s.strip()\<close>: leading and trailing whitespace removed.\<close>

definition strip :: "pystr \<Rightarrow> pystr" where
  "strip s = rev (dropWhile isspace (rev (dropWhile isspace s)))"

text \<open>
  \<open>s.replace(old, new)\<close>: the occurrences of \<open>old\<close> are found from left to right without
  overlap, and each is replaced by \<open>new\<close>. With an empty \<open>old\<close> Python puts \<open>new\<close> before
  every character and at the end.
\<close>

function replace :: "'a list \<Rightarrow> 'a list \<Rightarrow> 'a list \<Rightarrow> 'a list" where
  "replace old new s =
     (if old = [] then new @ concat (map (\<lambda>c. c # new) s)
      else if s = [] then []
      else if prefix old s then new @ replace old new (drop (length old) s)
      else hd s # replace old new (tl s))"
  by pat_completeness auto
termination
  by (relation "measure (\<lambda>(old, new, s). length s)") auto

declare replace.simps [simp del]

text \<open>
  \<open>s.split(sep)\<close> for a separator of one character: the segments between the occurrences
  of \<open>sep\<close>; the result is never empty, so \<open>[0]\<close> on it cannot raise.
\<close>

fun split :: "'a \<Rightarrow> 'a list \<Rightarrow> 'a list list" where
  "split sep [] = [[]]"
| "split sep (c # cs) =
     (if c = sep then [] # split sep cs
      else (case split sep cs of [] \<Rightarrow> [[c]] | w # ws \<Rightarrow> (c # w) # ws))"

text \<open>\<open>s.endswith(t)\<close> is \<^const>\<open>suffix\<close> \<open>t s\<close>.\<close>

section \<open>Domain normalisation\<close>

text \<open>
  \<^verbatim>\<open>
  def normalize_domain(domain: str) -> str:
      d = domain.strip().replace("http://", "").replace("https://", "")
      d = d.split("/")[0]
      return d if d.endswith(".myshopify.com") else f"{d}.myshopify.com"
  \<close>
\<close>

definition normalize_domain :: "pystr \<Rightarrow> pystr" where
  "normalize_domain domain =
     (let d = replace (lit ''https://'') [] (replace (lit ''http://'') [] (strip domain));
          d = hd (split (of_char CHR ''/'') d)
      in if suffix (lit ''.myshopify.com'') d then d else d @ lit ''.myshopify.com'')"


text \<open>
  The algorithm in the words of the specification, for comparison: the two schemes are
  stripped as prefixes only, and the segment before the first \<open>/\<close> is kept.
\<close>

definition removeprefix :: "'a list \<Rightarrow> 'a list \<Rightarrow> 'a list" where
  "removeprefix p s = (if prefix p s then drop (length p) s else s)"

definition normalize_domain_spec :: "pystr \<Rightarrow> pystr" where
  "normalize_domain_spec domain =
     (let d = removeprefix (lit ''https://'') (removeprefix (lit ''http://'') domain);
          d = takeWhile (\<lambda>c. c \<noteq> of_char CHR ''/'') d
      in if suffix (lit ''.myshopify.com'') d then d else d @ lit ''.myshopify.com'')"

definition startswith_space :: "pystr \<Rightarrow> bool" where
  "startswith_space s = (case s of [] \<Rightarrow> False | c # _ \<Rightarrow> isspace c)"

text \<open>
  What \<open>normalize_domain\<close> has before it looks at the suffix: the input trimmed, the two
  schemes deleted, cut at the first \<open>/\<close>.
\<close>

definition host_part :: "pystr \<Rightarrow> pystr" where
  "host_part x = takeWhile (\<lambda>c. c \<noteq> 47)
      (replace (lit ''https://'') [] (replace (lit ''http://'') [] (strip x)))"

section \<open>JSON values and Python's operations on them\<close>

text \<open>
  What \<open>r.json()\<close> returns: \<open>None\<close>, a bool, an int, a float, a str, a list or a dict
  (given by its items). A float is finite, infinite or not a number; Python's \<open>json\<close>
  module parses all three.
\<close>

datatype pyfloat = Finite rat | Infinite bool | NaN

datatype json =
    JNull
  | JBool bool
  | JInt int
  | JFloat pyfloat
  | JStr pystr
  | JArr "json list"
  | JObj "(pystr \<times> json) list"

text \<open>
  The exceptions a request handler can end with. \<open>HTTPException\<close> carries the status
  code and the detail; \<open>AttributeError\<close> and \<open>TypeError\<close> are what Python raises for
  \<open>x.get\<close> on a value that has no such method, and for \<open>len(x)\<close> or \<open>x[k]\<close> on a value
  that does not support it; \<open>NotImplementedError\<close> is what the truth test of a database
  handle raises when its class refuses the test.
\<close>

datatype exn = HTTPException int pystr | AttributeError | TypeError | NotImplementedError

text \<open>Truth value testing, as \<open>if x\<close> does it.\<close>

fun truthy :: "json \<Rightarrow> bool" where
  "truthy JNull = False"
| "truthy (JBool b) = b"
| "truthy (JInt i) = (i \<noteq> 0)"
| "truthy (JFloat (Finite q)) = (q \<noteq> 0)"
| "truthy (JFloat (Infinite _)) = True"
| "truthy (JFloat NaN) = True"
| "truthy (JStr s) = (s \<noteq> [])"
| "truthy (JArr xs) = (xs \<noteq> [])"
| "truthy (JObj kvs) = (kvs \<noteq> [])"

text \<open>An error slot is \<open>None\<close> or a string; it is true when it is a non-empty string.\<close>

fun truthy_err :: "pystr option \<Rightarrow> bool" where
  "truthy_err None = False"
| "truthy_err (Some e) = (e \<noteq> [])"

text \<open>\<open>x.get(key, default)\<close>: only a dict has the method.\<close>

fun py_get :: "json \<Rightarrow> pystr \<Rightarrow> json \<Rightarrow> exn + json" where
  "py_get (JObj kvs) key dflt =
     Inr (case map_of kvs key of None \<Rightarrow> dflt | Some v \<Rightarrow> v)"
| "py_get _ key dflt = Inl AttributeError"

text \<open>\<open>len(x)\<close>: defined on str, list and dict.\<close>

fun py_len :: "json \<Rightarrow> exn + nat" where
  "py_len (JStr s) = Inr (length s)"
| "py_len (JArr xs) = Inr (length xs)"
| "py_len (JObj kvs) = Inr (length (remdups (map fst kvs)))"
| "py_len _ = Inl TypeError"

section \<open>The Shopify client\<close>

text \<open>
  The network is a parameter: \<open>requests.get\<close> either raises an exception (\<open>Inl\<close> its
  \<open>str\<close>) or returns a response, whose \<open>json()\<close> in turn either raises or returns the
  parsed body.
\<close>

record request =
  url :: pystr
  headers :: "(pystr \<times> pystr) list"
  params :: "(pystr \<times> json) list"
  timeout :: nat

record response =
  status_code :: int
  resp_text :: pystr
  resp_json :: "pystr + json"

type_synonym network = "request \<Rightarrow> pystr + response"

text \<open>The decimal rendering of an integer in an f-string.\<close>

fun digits :: "nat \<Rightarrow> pystr" where
  "digits n = (if n < 10 then [48 + n] else digits (n div 10) @ [48 + n mod 10])"

declare digits.simps [simp del]

definition str_int :: "int \<Rightarrow> pystr" where
  "str_int i = (if i < 0 then 45 # digits (nat (- i)) else digits (nat i))"

text \<open>
  \<^verbatim>\<open>
  def shopify_get(domain, token, path, params=None):
      url = f"https://{domain}/admin/api/2024-04/{path}"
      headers = {"X-Shopify-Access-Token": token, "Accept": "application/json"}
      try:
          r = requests.get(url, headers=headers, params=params or {}, timeout=12)
          if r.status_code == 200:
              return r.json(), None
          return None, f"HTTP {r.status_code}: {r.text[:200]}"
      except Exception as e:
          return None, str(e)
  \<close>
  \<open>shopify_get_try\<close> is the body of the \<open>try\<close>: \<open>Inl m\<close> is an exception whose \<open>str\<close> is
  \<open>m\<close>. \<open>shopify_get\<close> adds the handler; its own result is \<open>Inl\<close> when an exception
  leaves the function.
\<close>

definition shopify_get_try ::
  "network \<Rightarrow> request \<Rightarrow> pystr + (json \<times> pystr option)" where
  "shopify_get_try net req =
     (case net req of
        Inl m \<Rightarrow> Inl m
      | Inr r \<Rightarrow>
          if status_code r = 200 then
            (case resp_json r of Inl m \<Rightarrow> Inl m | Inr body \<Rightarrow> Inr (body, None))
          else Inr (JNull, Some (lit ''HTTP '' @ str_int (status_code r) @ lit '': ''
                                  @ take 200 (resp_text r))))"

definition shopify_request :: "pystr \<Rightarrow> pystr \<Rightarrow> pystr \<Rightarrow> (pystr \<times> json) list option \<Rightarrow> request" where
  "shopify_request host token path ps =
     \<lparr>url = lit ''https://'' @ host @ lit ''/admin/api/2024-04/'' @ path,
      headers = [(lit ''X-Shopify-Access-Token'', token), (lit ''Accept'', lit ''application/json'')],
      params = (case ps of None \<Rightarrow> [] | Some p \<Rightarrow> p),
      timeout = 12\<rparr>"

definition shopify_get ::
  "network \<Rightarrow> pystr \<Rightarrow> pystr \<Rightarrow> pystr \<Rightarrow> (pystr \<times> json) list option
     \<Rightarrow> exn + (json \<times> pystr option)" where
  "shopify_get net host token path ps =
     (case shopify_get_try net (shopify_request host token path ps) of
        Inl m \<Rightarrow> Inr (JNull, Some m)
      | Inr res \<Rightarrow> Inr res)"

section \<open>Documents and the persistence store\<close>

text \<open>
  \<open>schemas.py\<close>: \<open>ShopifyIntegration\<close> has \<open>domain\<close>, \<open>access_token\<close> and the optional
  \<open>store_name\<close> and \<open>scopes\<close>, both \<open>None\<close> by default. The store does not check the
  schema, so the two optional fields hold whatever JSON value is written to them.
\<close>

record integration =
  domain :: pystr
  access_token :: pystr
  store_name :: json
  scopes :: json

record counts =
  n_products :: nat
  n_orders :: nat
  n_customers :: nat

record summary =
  demo :: bool
  counts :: counts
  products :: json
  orders :: json
  customers :: json

text \<open>\<open>DataSnapshot\<close>: a domain and the summary computed last.\<close>

record snapshot =
  snap_domain :: pystr
  snap_data :: summary

text \<open>A stored document is its \<open>_id\<close> and its fields (\<open>content\<close>); a collection is a list of documents.\<close>

record 'a document =
  doc_id :: nat
  content :: 'a

text \<open>
  The handle \<open>db\<close> comes from the module \<open>database\<close>, which is not among the sources;
  \<open>main.py\<close> drives it through the pymongo interface (\<open>list_collection_names\<close>,
  \<open>find\<close>, \<open>find_one\<close>, \<open>update_one\<close> with \<open>$set\<close>). What \<open>bool(db)\<close> does is decided by
  the class of the handle: an object whose class defines neither \<open>__bool__\<close> nor
  \<open>__len__\<close> is true, and the \<open>Database\<close> of pymongo 4 raises \<open>NotImplementedError\<close>
  (it asks for a comparison with \<open>None\<close>). The handle carries which of the two it does.
\<close>

datatype truth_test = TestsTrue | TestRaises

record database =
  handle_test :: truth_test
  shopifyintegration :: "integration document list"
  datasnapshot :: "snapshot document list"

text \<open>
  The handle \<open>db\<close> of the source is \<open>None\<close> when no database is configured: it is a
  \<open>database option\<close> here. \<open>find\<close> with a filter is \<^const>\<open>filter\<close>, \<open>find_one\<close> is
  \<^const>\<open>find\<close>, and \<open>update_one\<close> changes the first document that matches.
\<close>

fun update_one :: "('a \<Rightarrow> bool) \<Rightarrow> ('a \<Rightarrow> 'a) \<Rightarrow> 'a list \<Rightarrow> 'a list" where
  "update_one P f [] = []"
| "update_one P f (x # xs) = (if P x then f x # xs else x # update_one P f xs)"

definition fresh_id :: "'a document list \<Rightarrow> nat" where
  "fresh_id coll = Suc (foldr max (map doc_id coll) 0)"

text \<open>
  Modelled from the spec: \<open>create_document\<close> of the module \<open>database\<close>, which is not among
  the sources. The specification has it insert the document into the named collection and
  return the identifier of the new record; with no database configured it still returns
  some identifier and saves nothing. The identifier of a new record is one that no record
  of the collection has. There is one function for each of the two collections.
\<close>

definition create_document_shopifyintegration ::
  "database option \<Rightarrow> integration \<Rightarrow> nat \<times> database option" where
  "create_document_shopifyintegration db doc =
     (case db of
        None \<Rightarrow> (0, None)
      | Some s \<Rightarrow>
          (let i = fresh_id (shopifyintegration s)
           in (i, Some (s\<lparr>shopifyintegration :=
                          shopifyintegration s @ [\<lparr>doc_id = i, content = doc\<rparr>]\<rparr>))))"

definition create_document_datasnapshot ::
  "database option \<Rightarrow> snapshot \<Rightarrow> nat \<times> database option" where
  "create_document_datasnapshot db doc =
     (case db of
        None \<Rightarrow> (0, None)
      | Some s \<Rightarrow>
          (let i = fresh_id (datasnapshot s)
           in (i, Some (s\<lparr>datasnapshot := datasnapshot s @ [\<lparr>doc_id = i, content = doc\<rparr>]\<rparr>))))"

section \<open>Connect\<close>

record ConnectPayload =
  payload_domain :: pystr
  payload_access_token :: pystr

record connect_response =
  ok :: bool
  resp_id :: nat
  resp_domain :: pystr
  verified :: bool
  resp_store_name :: json

text \<open>
  \<^verbatim>\<open>
  existing = list(db["shopifyintegration"].find({"domain": domain})) if db else []
  doc = ShopifyIntegration(domain=domain, access_token=payload.access_token)
  if existing:
      db["shopifyintegration"].update_one({"_id": existing[0]["_id"]}, {"$set": doc.model_dump()})
      inserted_id = str(existing[0]["_id"])
  else:
      inserted_id = create_document("shopifyintegration", doc)
  \<close>
  The first line tests the handle for truth (\<open>if db\<close>): \<open>None\<close> is false, and a handle
  that is present is true or refuses the test; \<open>existing_integrations\<close> is that line.
  \<open>doc.model_dump()\<close> has all four fields, so \<open>$set\<close> replaces all four. Subscripting
  \<open>db\<close> when it is \<open>None\<close> raises \<open>TypeError\<close>. The identifier is kept as the number it is;
  its rendering by \<open>str\<close> is left out.
\<close>

definition existing_integrations ::
  "database option \<Rightarrow> pystr \<Rightarrow> exn + integration document list" where
  "existing_integrations db host =
     (case db of
        None \<Rightarrow> Inr []
      | Some s \<Rightarrow>
          (case handle_test s of
             TestRaises \<Rightarrow> Inl NotImplementedError
           | TestsTrue \<Rightarrow>
               Inr (filter (\<lambda>d. domain (content d) = host) (shopifyintegration s))))"

definition save_integration ::
  "database option \<Rightarrow> integration \<Rightarrow> (exn + nat) \<times> database option" where
  "save_integration db doc =
     (case existing_integrations db (domain doc) of
        Inl e \<Rightarrow> (Inl e, db)
      | Inr existing \<Rightarrow>
          (case existing of
             e # _ \<Rightarrow>
               (case db of
                  None \<Rightarrow> (Inl TypeError, db)
                | Some s \<Rightarrow>
                    (Inr (doc_id e),
                     Some (s\<lparr>shopifyintegration :=
                              update_one (\<lambda>d. doc_id d = doc_id e) (\<lambda>d. d\<lparr>content := doc\<rparr>)
                                (shopifyintegration s)\<rparr>)))
           | [] \<Rightarrow>
               (case create_document_shopifyintegration db doc of
                  (i, db') \<Rightarrow> (Inr i, db'))))"

text \<open>
  \<^verbatim>\<open>
  shop_name = data.get("shop", {}).get("name") if data else None
  \<close>
\<close>

definition shop_name_of :: "json \<Rightarrow> exn + json" where
  "shop_name_of data =
     (if truthy data then
        (case py_get data (lit ''shop'') (JObj []) of
           Inl e \<Rightarrow> Inl e
         | Inr shop \<Rightarrow> py_get shop (lit ''name'') JNull)
      else Inr JNull)"

text \<open>
  \<^verbatim>\<open>
  db["shopifyintegration"].update_one({"domain": domain}, {"$set": {"store_name": shop_name}})
  \<close>
\<close>

definition set_store_name :: "database option \<Rightarrow> pystr \<Rightarrow> json \<Rightarrow> exn + database option" where
  "set_store_name db host shop_name =
     (case db of
        None \<Rightarrow> Inl TypeError
      | Some s \<Rightarrow>
          Inr (Some (s\<lparr>shopifyintegration :=
                 update_one (\<lambda>d. domain (content d) = host)
                   (\<lambda>d. d\<lparr>content := (content d)\<lparr>store_name := shop_name\<rparr>\<rparr>)
                   (shopifyintegration s)\<rparr>)))"

text \<open>
  \<^verbatim>\<open>
  def connect_shopify(payload: ConnectPayload):
      domain = normalize_domain(payload.domain)
      ...                                       # save_integration
      data, err = shopify_get(domain, payload.access_token, "shop.json")
      verified = False if err else True
      shop_name = data.get("shop", {}).get("name") if data else None
      if shop_name:
          db["shopifyintegration"].update_one(...)
      return {"ok": True, "id": inserted_id, "domain": domain,
              "verified": verified, "store_name": shop_name}
  \<close>
  The result is the response or the exception that ends the request, together with the
  store as the request leaves it.
\<close>

definition connect_shopify ::
  "network \<Rightarrow> database option \<Rightarrow> ConnectPayload
     \<Rightarrow> (exn + connect_response) \<times> database option" where
  "connect_shopify net db payload =
     (let host = normalize_domain (payload_domain payload);
          doc = \<lparr>domain = host, access_token = payload_access_token payload,
                 store_name = JNull, scopes = JNull\<rparr>
      in case save_integration db doc of
           (Inl e, db1) \<Rightarrow> (Inl e, db1)
         | (Inr inserted_id, db1) \<Rightarrow>
             (case shopify_get net host (payload_access_token payload) (lit ''shop.json'') None of
                Inl e \<Rightarrow> (Inl e, db1)
              | Inr (data, err) \<Rightarrow>
                  (let verified = (if truthy_err err then False else True)
                   in case shop_name_of data of
                        Inl e \<Rightarrow> (Inl e, db1)
                      | Inr shop_name \<Rightarrow>
                          (let resp = \<lparr>ok = True, resp_id = inserted_id, resp_domain = host,
                                       verified = verified, resp_store_name = shop_name\<rparr>
                           in if truthy shop_name then
                                (case set_store_name db1 host shop_name of
                                   Inl e \<Rightarrow> (Inl e, db1)
                                 | Inr db2 \<Rightarrow> (Inr resp, db2))
                              else (Inr resp, db1)))))"

section \<open>Summary\<close>

text \<open>The demo payload, as the literals of the source; the title of the first product has U+2011.\<close>

definition demo_products :: json where
  "demo_products = JObj [(lit ''products'', JArr [
     JObj [(lit ''id'', JInt 1), (lit ''title'', JStr (lit ''Demo T'' @ [0x2011] @ lit ''Shirt'')),
           (lit ''vendor'', JStr (lit ''ShopSync'')), (lit ''status'', JStr (lit ''active''))],
     JObj [(lit ''id'', JInt 2), (lit ''title'', JStr (lit ''Demo Hoodie'')),
           (lit ''vendor'', JStr (lit ''ShopSync'')), (lit ''status'', JStr (lit ''draft''))]])]"

definition demo_orders :: json where
  "demo_orders = JObj [(lit ''orders'', JArr [
     JObj [(lit ''id'', JInt 101), (lit ''name'', JStr (lit ''#1001'')),
           (lit ''financial_status'', JStr (lit ''paid'')), (lit ''total_price'', JStr (lit ''49.00''))],
     JObj [(lit ''id'', JInt 102), (lit ''name'', JStr (lit ''#1002'')),
           (lit ''financial_status'', JStr (lit ''pending'')), (lit ''total_price'', JStr (lit ''98.00''))]])]"

definition demo_customers :: json where
  "demo_customers = JObj [(lit ''customers'', JArr [
     JObj [(lit ''id'', JInt 201), (lit ''first_name'', JStr (lit ''Alex'')),
           (lit ''last_name'', JStr (lit ''Johnson'')), (lit ''email'', JStr (lit ''alex@example.com''))],
     JObj [(lit ''id'', JInt 202), (lit ''first_name'', JStr (lit ''Sam'')),
           (lit ''last_name'', JStr (lit ''Lee'')), (lit ''email'', JStr (lit ''sam@example.com''))]])]"

text \<open>
  \<open>len(x.get(key, [])) if x else 0\<close> and \<open>x.get(key, []) if x else []\<close>.
\<close>

definition resource_count :: "json \<Rightarrow> pystr \<Rightarrow> exn + nat" where
  "resource_count x key =
     (if truthy x then (case py_get x key (JArr []) of Inl e \<Rightarrow> Inl e | Inr v \<Rightarrow> py_len v)
      else Inr 0)"

definition resource_list :: "json \<Rightarrow> pystr \<Rightarrow> exn + json" where
  "resource_list x key = (if truthy x then py_get x key (JArr []) else Inr (JArr []))"

text \<open>
  The dict display of \<open>summary\<close>: its entries are evaluated in the order written, and the
  first exception ends the evaluation.
\<close>

definition build_summary :: "bool \<Rightarrow> json \<Rightarrow> json \<Rightarrow> json \<Rightarrow> exn + summary" where
  "build_summary dm ps os cs =
     (case resource_count ps (lit ''products'') of Inl e \<Rightarrow> Inl e | Inr np \<Rightarrow>
     (case resource_count os (lit ''orders'') of Inl e \<Rightarrow> Inl e | Inr no \<Rightarrow>
     (case resource_count cs (lit ''customers'') of Inl e \<Rightarrow> Inl e | Inr nc \<Rightarrow>
     (case resource_list ps (lit ''products'') of Inl e \<Rightarrow> Inl e | Inr pl \<Rightarrow>
     (case resource_list os (lit ''orders'') of Inl e \<Rightarrow> Inl e | Inr ol \<Rightarrow>
     (case resource_list cs (lit ''customers'') of Inl e \<Rightarrow> Inl e | Inr cl \<Rightarrow>
        Inr \<lparr>demo = dm,
             counts = \<lparr>n_products = np, n_orders = no, n_customers = nc\<rparr>,
             products = pl, orders = ol, customers = cl\<rparr>))))))"

text \<open>
  The cache write.
  \<^verbatim>\<open>
  try:
      snap = DataSnapshot(domain=domain, data=summary)
      existing = db["datasnapshot"].find_one({"domain": domain})
      if existing:
          db["datasnapshot"].update_one({"_id": existing["_id"]}, {"$set": snap.model_dump()})
      else:
          create_document("datasnapshot", snap)
  except Exception:
      pass
  \<close>
  A store operation inside the \<open>try\<close> can raise (the store went away, the write was
  refused): \<open>store_fault\<close> says which one does. \<open>cache_snapshot_try\<close> is the body of the
  \<open>try\<close>, \<open>None\<close> when it raises; \<open>cache_snapshot\<close> adds the handler. Outside this \<open>try\<close>
  the operations of a store that is present are taken to succeed.
\<close>

datatype store_fault = NoFault | FindFault | WriteFault

definition cache_snapshot_try ::
  "store_fault \<Rightarrow> database option \<Rightarrow> pystr \<Rightarrow> summary \<Rightarrow> database option option" where
  "cache_snapshot_try fault db host summ =
     (let snap = \<lparr>snap_domain = host, snap_data = summ\<rparr>
      in case db of
           None \<Rightarrow> None
         | Some s \<Rightarrow>
             if fault = FindFault then None
             else (case find (\<lambda>d. snap_domain (content d) = host) (datasnapshot s) of
                     Some existing \<Rightarrow>
                       if fault = WriteFault then None
                       else Some (Some (s\<lparr>datasnapshot :=
                              update_one (\<lambda>d. doc_id d = doc_id existing)
                                (\<lambda>d. d\<lparr>content := snap\<rparr>) (datasnapshot s)\<rparr>))
                   | None \<Rightarrow>
                       if fault = WriteFault then None
                       else Some (snd (create_document_datasnapshot db snap))))"

definition cache_snapshot ::
  "store_fault \<Rightarrow> database option \<Rightarrow> pystr \<Rightarrow> summary \<Rightarrow> database option" where
  "cache_snapshot fault db host summ =
     (case cache_snapshot_try fault db host summ of None \<Rightarrow> db | Some db' \<Rightarrow> db')"

text \<open>
  \<^verbatim>\<open>
  def shopify_summary(domain):
      domain = normalize_domain(domain)
      integ = db["shopifyintegration"].find_one({"domain": domain}) if db else None
      if not integ:
          raise HTTPException(status_code=404, detail="Integration not found. Connect your store first.")
      token = integ.get("access_token")
      products, p_err = shopify_get(domain, token, "products.json", {"limit": 5})
      orders, o_err = shopify_get(domain, token, "orders.json", {"limit": 5, "status": "any"})
      customers, c_err = shopify_get(domain, token, "customers.json", {"limit": 5})
      demo = False
      if p_err and o_err and c_err:
          demo = True
          products = {...}; orders = {...}; customers = {...}
      summary = {...}
      ...                                       # cache_snapshot
      return summary
  \<close>
  The second line tests the handle for truth, as connect does; \<open>find_integration\<close> is
  that line.
\<close>

definition not_found :: exn where
  "not_found = HTTPException 404 (lit ''Integration not found. Connect your store first.'')"

definition find_integration ::
  "database option \<Rightarrow> pystr \<Rightarrow> exn + integration document option" where
  "find_integration db host =
     (case db of
        None \<Rightarrow> Inr None
      | Some s \<Rightarrow>
          (case handle_test s of
             TestRaises \<Rightarrow> Inl NotImplementedError
           | TestsTrue \<Rightarrow> Inr (find (\<lambda>d. domain (content d) = host) (shopifyintegration s))))"

definition shopify_summary ::
  "network \<Rightarrow> store_fault \<Rightarrow> database option \<Rightarrow> pystr
     \<Rightarrow> (exn + summary) \<times> database option" where
  "shopify_summary net fault db raw =
     (let host = normalize_domain raw
      in case find_integration db host of
           Inl e \<Rightarrow> (Inl e, db)
         | Inr None \<Rightarrow> (Inl not_found, db)
         | Inr (Some i) \<Rightarrow>
             (let token = access_token (content i) in
              case shopify_get net host token (lit ''products.json'')
                     (Some [(lit ''limit'', JInt 5)]) of
                Inl e \<Rightarrow> (Inl e, db)
              | Inr (ps, p_err) \<Rightarrow>
             (case shopify_get net host token (lit ''orders.json'')
                     (Some [(lit ''limit'', JInt 5), (lit ''status'', JStr (lit ''any''))]) of
                Inl e \<Rightarrow> (Inl e, db)
              | Inr (os, o_err) \<Rightarrow>
             (case shopify_get net host token (lit ''customers.json'')
                     (Some [(lit ''limit'', JInt 5)]) of
                Inl e \<Rightarrow> (Inl e, db)
              | Inr (cs, c_err) \<Rightarrow>
                  (let dm = (truthy_err p_err \<and> truthy_err o_err \<and> truthy_err c_err);
                       built = (if dm then build_summary True demo_products demo_orders demo_customers
                                else build_summary False ps os cs)
                   in (case built of
                        Inl e \<Rightarrow> (Inl e, db)
                      | Inr summ \<Rightarrow> (Inr summ, cache_snapshot fault db host summ)))))))"

section \<open>Notions the properties are stated with\<close>

text \<open>The integration records of the store; none when there is no store.\<close>

definition stored_integrations :: "database option \<Rightarrow> integration document list" where
  "stored_integrations db = (case db of None \<Rightarrow> [] | Some s \<Rightarrow> shopifyintegration s)"

text \<open>
  The entry of a response body under a resource key, the empty list when the body is not a
  dict or has no such entry: the "real result" of a fetch.
\<close>

definition listing :: "pystr \<Rightarrow> json \<Rightarrow> json" where
  "listing key body =
     (case body of
        JObj kvs \<Rightarrow> (case map_of kvs key of None \<Rightarrow> JArr [] | Some v \<Rightarrow> v)
      | _ \<Rightarrow> JArr [])"

text \<open>The number of elements of a value that has a length, 0 otherwise.\<close>

definition size_of :: "json \<Rightarrow> nat" where
  "size_of v = (case py_len v of Inr n \<Rightarrow> n | Inl _ \<Rightarrow> 0)"

text \<open>
  A body that the summary can read for a resource key: a false value (\<open>None\<close>, an empty
  dict), or a dict whose entry under the key, if there is one, has a length (a list, in a
  response of the Admin API).
\<close>

definition listing_ok :: "pystr \<Rightarrow> json \<Rightarrow> bool" where
  "listing_ok key body =
     (if truthy body then
        (case body of
           JObj kvs \<Rightarrow>
             (case map_of kvs key of
                None \<Rightarrow> True
              | Some v \<Rightarrow> (case py_len v of Inr _ \<Rightarrow> True | Inl _ \<Rightarrow> False))
         | _ \<Rightarrow> False)
      else True)"

text \<open>
  A body in which connect can look for the shop name: a false value, or a dict whose
  entry \<open>shop\<close>, if there is one, is a dict.
\<close>

definition shop_ok :: "json \<Rightarrow> bool" where
  "shop_ok body =
     (if truthy body then
        (case body of
           JObj kvs \<Rightarrow>
             (case map_of kvs (lit ''shop'') of
                None \<Rightarrow> True
              | Some v \<Rightarrow> (case v of JObj _ \<Rightarrow> True | _ \<Rightarrow> False))
         | _ \<Rightarrow> False)
      else True)"

text \<open>
  The shop name of a body: the entry \<open>name\<close> of its entry \<open>shop\<close>, \<open>None\<close> when there is
  none.
\<close>

definition shop_name :: "json \<Rightarrow> json" where
  "shop_name body =
     (case body of
        JObj kvs \<Rightarrow>
          (case map_of kvs (lit ''shop'') of
             Some (JObj shop) \<Rightarrow> (case map_of shop (lit ''name'') of None \<Rightarrow> JNull | Some v \<Rightarrow> v)
           | _ \<Rightarrow> JNull)
      | _ \<Rightarrow> JNull)"

text \<open>The response that carries the demo payload.\<close>

definition demo_summary :: summary where
  "demo_summary =
     \<lparr>demo = True,
      counts = \<lparr>n_products = 2, n_orders = 2, n_customers = 2\<rparr>,
      products = listing (lit ''products'') demo_products,
      orders = listing (lit ''orders'') demo_orders,
      customers = listing (lit ''customers'') demo_customers\<rparr>"

text \<open>
  The invariant of the integration collection: the store gives every document its own
  \<open>_id\<close>, and no two documents have the same domain.
\<close>

definition store_inv :: "database \<Rightarrow> bool" where
  "store_inv s \<longleftrightarrow>
     distinct (map doc_id (shopifyintegration s))
     \<and> distinct (map (\<lambda>d. domain (content d)) (shopifyintegration s))"

text \<open>The records of a domain.\<close>

definition records_of :: "pystr \<Rightarrow> database \<Rightarrow> integration document list" where
  "records_of host s = filter (\<lambda>d. domain (content d) = host) (shopifyintegration s)"

section \<open>Properties of the string operations\<close>

lemma replace_Nil [simp]: "replace old new [] = (if old = [] then new else [])"
  by (simp add: replace.simps)

lemma lit_eq_Nil [simp]: "lit s = [] \<longleftrightarrow> s = []"
  by (simp add: lit_def)

lemma replace_Cons:
  "old \<noteq> [] \<Longrightarrow> replace old new (c # cs) =
     (if prefix old (c # cs) then new @ replace old new (drop (length old) (c # cs))
      else c # replace old new cs)"
  by (subst replace.simps) simp

text \<open>The facts that evaluate the string functions on a literal.\<close>

lemmas str_eval = normalize_domain_def normalize_domain_spec_def removeprefix_def lit_def
  strip_def isspace_def replace_Cons Let_def suffix_to_prefix startswith_space_def

lemma replace_not_sublist:
  "old \<noteq> [] \<Longrightarrow> \<not> sublist old s \<Longrightarrow> replace old new s = s"
proof (induction s)
  case Nil
  then show ?case by simp
next
  case (Cons c cs)
  then have "\<not> prefix old (c # cs)" and "\<not> sublist old cs"
    by (auto simp: sublist_Cons_right)
  with Cons show ?case by (simp add: replace_Cons)
qed

lemma replace_prefix:
  "old \<noteq> [] \<Longrightarrow> replace old new (old @ s) = new @ replace old new s"
  by (cases old) (simp_all add: replace_Cons)

lemma set_replace_del: "old \<noteq> [] \<Longrightarrow> set (replace old [] s) \<subseteq> set s"
proof (induction "length s" arbitrary: s rule: less_induct)
  case less
  show ?case
  proof (cases s)
    case Nil
    then show ?thesis using less.prems by simp
  next
    case (Cons c cs)
    show ?thesis
    proof (cases "prefix old s")
      case True
      have "length (drop (length old) s) < length s"
        using less.prems Cons by simp
      then have "set (replace old [] (drop (length old) s)) \<subseteq> set (drop (length old) s)"
        using less by blast
      also have "\<dots> \<subseteq> set s" by (rule set_drop_subset)
      finally show ?thesis using True Cons less.prems by (simp add: replace_Cons)
    next
      case False
      have "set (replace old [] cs) \<subseteq> set cs"
        using less Cons by simp
      then show ?thesis using False Cons less.prems by (auto simp: replace_Cons)
    qed
  qed
qed

lemma split_not_Nil [simp]: "split sep s \<noteq> []"
  by (induction s) (auto split: list.splits)

lemma hd_split: "hd (split sep s) = takeWhile (\<lambda>c. c \<noteq> sep) s"
  by (induction s) (auto split: list.splits)

lemma set_strip: "set (strip s) \<subseteq> set s"
  by (auto simp: strip_def dest!: set_dropWhileD)

lemma strip_last:
  assumes "s \<noteq> []" "\<not> isspace (last s)"
  shows "strip s = dropWhile isspace s"
proof -
  let ?t = "dropWhile isspace s"
  have ne: "?t \<noteq> []" using assms
    by (metis dropWhile_eq_Nil_conv last_in_set)
  have "last ?t = last s" using assms ne
    by (metis last_appendR takeWhile_dropWhile_id)
  then have "\<not> isspace (hd (rev ?t))" using assms ne by (simp add: hd_rev)
  then have "dropWhile isspace (rev ?t) = rev ?t" using ne
    by (cases "rev ?t") auto
  then show ?thesis by (simp add: strip_def)
qed

lemma dropWhile_id_iff: "dropWhile P s = s \<longleftrightarrow> (case s of [] \<Rightarrow> True | c # _ \<Rightarrow> \<not> P c)"
proof (cases s)
  case Nil
  then show ?thesis by simp
next
  case (Cons c cs)
  have "dropWhile P cs \<noteq> c # cs"
    using length_dropWhile_le [of P cs] by (auto dest: arg_cong [where f = length])
  then show ?thesis using Cons by simp
qed

section \<open>Properties of the domain normaliser\<close>

lemma lit_http: "lit ''http://'' = [104, 116, 116, 112, 58, 47, 47]"
  by (simp add: lit_def)

lemma lit_https: "lit ''https://'' = [104, 116, 116, 112, 115, 58, 47, 47]"
  by (simp add: lit_def)

lemma lit_sfx:
  "lit ''.myshopify.com'' = [46, 109, 121, 115, 104, 111, 112, 105, 102, 121, 46, 99, 111, 109]"
  by (simp add: lit_def)

lemma normalize_domain_host_part:
  "normalize_domain x =
     (if suffix (lit ''.myshopify.com'') (host_part x) then host_part x
      else host_part x @ lit ''.myshopify.com'')"
  by (simp add: normalize_domain_def host_part_def hd_split Let_def)

lemma slash_notin_host_part: "47 \<notin> set (host_part x)"
  by (auto simp: host_part_def dest: set_takeWhileD)

lemma slash_notin_normalize: "47 \<notin> set (normalize_domain x)"
  using slash_notin_host_part [of x] by (simp add: normalize_domain_host_part lit_sfx)

lemma suffix_normalize: "suffix (lit ''.myshopify.com'') (normalize_domain x)"
  by (simp add: normalize_domain_host_part suffix_def)

lemma set_host_part: "set (host_part x) \<subseteq> set x"
proof -
  have "set (host_part x)
      \<subseteq> set (replace (lit ''https://'') [] (replace (lit ''http://'') [] (strip x)))"
    by (auto simp: host_part_def dest: set_takeWhileD)
  also have "\<dots> \<subseteq> set (replace (lit ''http://'') [] (strip x))"
    by (rule set_replace_del) (simp add: lit_def)
  also have "\<dots> \<subseteq> set (strip x)"
    by (rule set_replace_del) (simp add: lit_def)
  also have "\<dots> \<subseteq> set x" by (rule set_strip)
  finally show ?thesis .
qed

lemma not_sublist_no_slash:
  "47 \<notin> set s \<Longrightarrow> \<not> sublist (lit ''http://'') s \<and> \<not> sublist (lit ''https://'') s"
  by (auto simp: lit_http lit_https dest!: set_mono_sublist)

text \<open>
  On a string without \<open>/\<close> that already ends with the suffix, only the trimming of leading
  whitespace is left of the normaliser.
\<close>

lemma normalize_no_slash_sfx:
  assumes "47 \<notin> set s" "suffix (lit ''.myshopify.com'') s"
  shows "normalize_domain s = dropWhile isspace s"
proof -
  have ne: "s \<noteq> []" using assms(2) by (auto simp: lit_sfx suffix_def)
  have "last s = 109" using assms(2) by (auto simp: lit_sfx suffix_def)
  then have st: "strip s = dropWhile isspace s"
    using ne by (intro strip_last) (simp_all add: isspace_def)
  let ?t = "dropWhile isspace s"
  have ns: "47 \<notin> set ?t" using assms(1) by (auto dest: set_dropWhileD)
  have r: "replace (lit ''https://'') [] (replace (lit ''http://'') [] ?t) = ?t"
    using not_sublist_no_slash [OF ns] by (simp add: replace_not_sublist lit_http lit_https)
  have tw: "takeWhile (\<lambda>c. c \<noteq> 47) ?t = ?t" using ns by auto
  obtain d where s: "s = d @ lit ''.myshopify.com''" using assms(2) by (auto simp: suffix_def)
  have "suffix (lit ''.myshopify.com'') ?t"
    unfolding s by (simp add: dropWhile_append lit_sfx isspace_def suffix_def)
  then show ?thesis by (simp add: normalize_domain_host_part host_part_def st r tw)
qed

lemma normalize_twice:
  "normalize_domain (normalize_domain x) = dropWhile isspace (normalize_domain x)"
  by (rule normalize_no_slash_sfx [OF slash_notin_normalize suffix_normalize])

lemma normalize_idempotent_iff:
  "normalize_domain (normalize_domain x) = normalize_domain x \<longleftrightarrow>
     \<not> startswith_space (normalize_domain x)"
proof -
  have "normalize_domain x \<noteq> []"
    using suffix_normalize [of x] by (auto simp: lit_sfx suffix_def)
  then show ?thesis
    unfolding normalize_twice dropWhile_id_iff startswith_space_def
    by (simp split: list.splits)
qed

lemma no_space_normalize:
  assumes "\<forall>c\<in>set x. \<not> isspace c"
  shows "\<not> startswith_space (normalize_domain x)"
proof (cases "host_part x")
  case Nil
  then show ?thesis
    by (simp add: normalize_domain_host_part startswith_space_def lit_sfx isspace_def)
next
  case (Cons c cs)
  then have "c \<in> set x" using set_host_part [of x] by auto
  then have "\<not> isspace c" using assms by blast
  then show ?thesis using Cons
    by (simp add: normalize_domain_host_part startswith_space_def)
qed

lemma not_sublist_http_https:
  "\<not> sublist (lit ''http://'') y \<Longrightarrow> \<not> sublist (lit ''http://'') (lit ''https://'' @ y)"
  by (simp add: lit_http lit_https sublist_Cons_right)

lemma replace_schemes:
  assumes "\<not> sublist (lit ''http://'') y" "\<not> sublist (lit ''https://'') y"
    and "y = removeprefix (lit ''https://'') (removeprefix (lit ''http://'') x)"
  shows "replace (lit ''https://'') [] (replace (lit ''http://'') [] x) = y"
proof -
  have ne: "lit ''http://'' \<noteq> []" "lit ''https://'' \<noteq> []" by (simp_all add: lit_def)
  have y: "replace (lit ''https://'') [] (replace (lit ''http://'') [] y) = y"
    using assms(1,2) ne by (simp add: replace_not_sublist)
  have hy: "replace (lit ''https://'') [] (replace (lit ''http://'') [] (lit ''https://'' @ y)) = y"
    using assms(1,2) ne not_sublist_http_https [OF assms(1)]
    by (simp add: replace_not_sublist replace_prefix)
  let ?x1 = "removeprefix (lit ''http://'') x"
  have x1: "replace (lit ''https://'') [] (replace (lit ''http://'') [] ?x1) = y"
  proof (cases "prefix (lit ''https://'') ?x1")
    case True
    then have "?x1 = lit ''https://'' @ y"
      using assms(3) by (auto simp: removeprefix_def prefix_def)
    then show ?thesis using hy by simp
  next
    case False
    then show ?thesis using assms(3) y by (simp add: removeprefix_def)
  qed
  show ?thesis
  proof (cases "prefix (lit ''http://'') x")
    case True
    then have x: "x = lit ''http://'' @ ?x1" by (auto simp: removeprefix_def prefix_def)
    have "replace (lit ''http://'') [] x = replace (lit ''http://'') [] ?x1"
      by (subst x) (simp add: replace_prefix ne)
    then show ?thesis using x1 by simp
  next
    case False
    then show ?thesis using x1 by (simp add: removeprefix_def)
  qed
qed

lemma normalize_example_1:
  "normalize_domain (lit ''https://acme.myshopify.com/admin'') = lit ''acme.myshopify.com''"
  by (simp add: str_eval)

lemma normalize_example_2: "normalize_domain (lit ''acme'') = lit ''acme.myshopify.com''"
  by (simp add: str_eval)

lemma normalize_example_3:
  "normalize_domain (lit ''acme.myshopify.com'') = lit ''acme.myshopify.com''"
  by (simp add: str_eval)

text \<open>
  C3 (amended). On an input without leading or trailing whitespace in which the two schemes
  occur only as leading prefixes (what is left after stripping them contains neither),
  \<open>normalize_domain\<close> is the prefix stripping of the specification: strip \<open>http://\<close> and
  \<open>https://\<close>, keep the segment before the first \<open>/\<close>, append \<open>.myshopify.com\<close> unless
  it is there. Every string is accepted: the result always ends with \<open>.myshopify.com\<close>
  and has no \<open>/\<close>.
\<close>

theorem normalize_domain_prefix_stripping:
  "(strip x = x
      \<and> \<not> sublist (lit ''http://'')
            (removeprefix (lit ''https://'') (removeprefix (lit ''http://'') x))
      \<and> \<not> sublist (lit ''https://'')
            (removeprefix (lit ''https://'') (removeprefix (lit ''http://'') x))
      \<longrightarrow> normalize_domain x = normalize_domain_spec x)
   \<and> suffix (lit ''.myshopify.com'') (normalize_domain x)
   \<and> of_char CHR ''/'' \<notin> set (normalize_domain x)"
proof (intro conjI impI)
  assume a: "strip x = x
      \<and> \<not> sublist (lit ''http://'')
            (removeprefix (lit ''https://'') (removeprefix (lit ''http://'') x))
      \<and> \<not> sublist (lit ''https://'')
            (removeprefix (lit ''https://'') (removeprefix (lit ''http://'') x))"
  then have "replace (lit ''https://'') [] (replace (lit ''http://'') [] x)
      = removeprefix (lit ''https://'') (removeprefix (lit ''http://'') x)"
    by (intro replace_schemes) simp_all
  then show "normalize_domain x = normalize_domain_spec x"
    using a by (simp add: normalize_domain_def normalize_domain_spec_def hd_split)
next
  show "suffix (lit ''.myshopify.com'') (normalize_domain x)" by (rule suffix_normalize)
next
  show "of_char CHR ''/'' \<notin> set (normalize_domain x)"
    using slash_notin_normalize [of x] by simp
qed

theorem normalize_domain_prefix_stripping_witness:
  "strip (lit ''https://acme.myshopify.com/admin'') = lit ''https://acme.myshopify.com/admin''
   \<and> \<not> sublist (lit ''http://'') (removeprefix (lit ''https://'')
          (removeprefix (lit ''http://'') (lit ''https://acme.myshopify.com/admin'')))
   \<and> \<not> sublist (lit ''https://'') (removeprefix (lit ''https://'')
          (removeprefix (lit ''http://'') (lit ''https://acme.myshopify.com/admin'')))
   \<and> normalize_domain (lit ''https://acme.myshopify.com/admin'')
        = normalize_domain_spec (lit ''https://acme.myshopify.com/admin'')
   \<and> normalize_domain_spec (lit ''https://acme.myshopify.com/admin'') = lit ''acme.myshopify.com''"
proof -
  let ?x = "lit ''https://acme.myshopify.com/admin''"
  have h1: "strip ?x = ?x" by (simp add: str_eval)
  have h2: "\<not> sublist (lit ''http://'')
      (removeprefix (lit ''https://'') (removeprefix (lit ''http://'') ?x))"
    by (simp add: str_eval sublist_Cons_right)
  have h3: "\<not> sublist (lit ''https://'')
      (removeprefix (lit ''https://'') (removeprefix (lit ''http://'') ?x))"
    by (simp add: str_eval sublist_Cons_right)
  have v: "normalize_domain_spec ?x = lit ''acme.myshopify.com''" by (simp add: str_eval)
  from normalize_domain_prefix_stripping [of ?x] h1 h2 h3
  have "normalize_domain ?x = normalize_domain_spec ?x" by blast
  with h1 h2 h3 v show ?thesis by blast
qed

text \<open>
  C3 as stated fails: a scheme inside the string is deleted too, where prefix stripping
  leaves it alone.
\<close>

theorem normalize_domain_not_prefix_only:
  "normalize_domain (lit ''ahttp://b'') = lit ''ab.myshopify.com''
   \<and> normalize_domain_spec (lit ''ahttp://b'') = lit ''ahttp:.myshopify.com''"
  by (simp add: str_eval)

text \<open>
  C6 (amended). \<open>normalize(normalize(x)) = normalize(x)\<close> holds exactly when \<open>normalize(x)\<close>
  does not begin with a whitespace character, so for every \<open>x\<close> that has no whitespace
  character; the three examples of the specification hold.
\<close>

theorem normalize_domain_idempotent:
  "(normalize_domain (normalize_domain x) = normalize_domain x \<longleftrightarrow>
      \<not> startswith_space (normalize_domain x))
   \<and> ((\<forall>c\<in>set x. \<not> isspace c) \<longrightarrow> normalize_domain (normalize_domain x) = normalize_domain x)
   \<and> normalize_domain (lit ''https://acme.myshopify.com/admin'') = lit ''acme.myshopify.com''
   \<and> normalize_domain (lit ''acme'') = lit ''acme.myshopify.com''
   \<and> normalize_domain (lit ''acme.myshopify.com'') = lit ''acme.myshopify.com''"
  using normalize_idempotent_iff [of x] no_space_normalize [of x]
    normalize_example_1 normalize_example_2 normalize_example_3
  by blast

theorem normalize_domain_idempotent_witness:
  "\<not> startswith_space (normalize_domain (lit ''acme''))
   \<and> normalize_domain (normalize_domain (lit ''acme'')) = normalize_domain (lit ''acme'')"
proof -
  have h: "\<forall>c\<in>set (lit ''acme''). \<not> isspace c" by (simp add: str_eval)
  with normalize_domain_idempotent [of "lit ''acme''"] show ?thesis by blast
qed

text \<open>
  C6 as stated fails: whitespace that follows a scheme survives the first pass and is
  trimmed by the second.
\<close>

theorem normalize_domain_not_idempotent:
  "normalize_domain (normalize_domain (lit ''http:// a'')) \<noteq> normalize_domain (lit ''http:// a'')"
  by (simp add: str_eval)

section \<open>Properties of the Shopify client\<close>

lemma shopify_get_Inr: "\<exists>body err. shopify_get net host token path ps = Inr (body, err)"
  by (auto simp: shopify_get_def split: sum.splits)

lemma shopify_get_err_body:
  "shopify_get net host token path ps = Inr (body, Some e) \<Longrightarrow> body = JNull"
  by (auto simp: shopify_get_def shopify_get_try_def split: sum.splits if_splits)

lemma digits_ne [simp]: "digits n \<noteq> []"
  by (subst digits.simps) simp

text \<open>
  C9. What the fetch operation returns, case by case: on status 200 the parsed body and no
  error; on any other status no body and an error string that is \<open>HTTP\<close>, the status code
  and the first 200 characters of the response text; when the request raises, no body and
  the description of the failure, and the same when the body of a 200 response does not
  parse (a malformed response). In every case the caller gets a pair, and a pair with an
  error has no body.
\<close>

theorem shopify_get_cases:
  "(net (shopify_request host token path ps) = Inr r \<and> status_code r = 200
      \<and> resp_json r = Inr body
      \<longrightarrow> shopify_get net host token path ps = Inr (body, None))
   \<and> (net (shopify_request host token path ps) = Inr r \<and> status_code r \<noteq> 200
      \<longrightarrow> (\<exists>e. shopify_get net host token path ps = Inr (JNull, Some e)
             \<and> e = lit ''HTTP '' @ str_int (status_code r) @ lit '': '' @ take 200 (resp_text r)
             \<and> sublist (str_int (status_code r)) e
             \<and> suffix (take 200 (resp_text r)) e))
   \<and> (net (shopify_request host token path ps) = Inl m
      \<longrightarrow> shopify_get net host token path ps = Inr (JNull, Some m))
   \<and> (net (shopify_request host token path ps) = Inr r \<and> status_code r = 200
      \<and> resp_json r = Inl m
      \<longrightarrow> shopify_get net host token path ps = Inr (JNull, Some m))
   \<and> (\<exists>data err. shopify_get net host token path ps = Inr (data, err)
         \<and> (err \<noteq> None \<longrightarrow> data = JNull))"
proof (intro conjI impI)
  assume "net (shopify_request host token path ps) = Inr r \<and> status_code r \<noteq> 200"
  then show "\<exists>e. shopify_get net host token path ps = Inr (JNull, Some e)
             \<and> e = lit ''HTTP '' @ str_int (status_code r) @ lit '': '' @ take 200 (resp_text r)
             \<and> sublist (str_int (status_code r)) e
             \<and> suffix (take 200 (resp_text r)) e"
    by (simp add: shopify_get_def shopify_get_try_def suffix_def)
next
  show "\<exists>data err. shopify_get net host token path ps = Inr (data, err)
         \<and> (err \<noteq> None \<longrightarrow> data = JNull)"
    using shopify_get_Inr [of net host token path ps] shopify_get_err_body by blast
qed (simp_all add: shopify_get_def shopify_get_try_def)


lemma str_int_404: "str_int 404 = lit ''404''"
  by (simp add: str_int_def digits.simps lit_def)

theorem shopify_get_cases_witness:
  "shopify_get (\<lambda>_. Inr \<lparr>status_code = 200, resp_text = lit ''{}'', resp_json = Inr (JObj [])\<rparr>)
      (lit ''acme.myshopify.com'') (lit ''tok'') (lit ''shop.json'') None
     = Inr (JObj [], None)
   \<and> shopify_get (\<lambda>_. Inr \<lparr>status_code = 404, resp_text = lit ''Not Found'',
                             resp_json = Inl (lit ''no JSON'')\<rparr>)
      (lit ''acme.myshopify.com'') (lit ''tok'') (lit ''shop.json'') None
     = Inr (JNull, Some (lit ''HTTP 404: Not Found''))
   \<and> shopify_get (\<lambda>_. Inl (lit ''timed out''))
      (lit ''acme.myshopify.com'') (lit ''tok'') (lit ''shop.json'') None
     = Inr (JNull, Some (lit ''timed out''))
   \<and> shopify_get (\<lambda>_. Inr \<lparr>status_code = 200, resp_text = lit ''<html>'',
                             resp_json = Inl (lit ''Expecting value'')\<rparr>)
      (lit ''acme.myshopify.com'') (lit ''tok'') (lit ''shop.json'') None
     = Inr (JNull, Some (lit ''Expecting value''))"
proof -
  let ?h = "lit ''acme.myshopify.com''" and ?t = "lit ''tok''" and ?p = "lit ''shop.json''"
  let ?r1 = "\<lparr>status_code = 200, resp_text = lit ''{}'', resp_json = Inr (JObj [])\<rparr>"
  let ?r2 = "\<lparr>status_code = 404, resp_text = lit ''Not Found'', resp_json = Inl (lit ''no JSON'')\<rparr>"
  let ?r4 = "\<lparr>status_code = 200, resp_text = lit ''<html>'', resp_json = Inl (lit ''Expecting value'')\<rparr>"
  have 1: "shopify_get (\<lambda>_. Inr ?r1) ?h ?t ?p None = Inr (JObj [], None)"
    using shopify_get_cases [of "\<lambda>_. Inr ?r1" ?h ?t ?p None ?r1 "JObj []"] by simp
  have 2: "shopify_get (\<lambda>_. Inr ?r2) ?h ?t ?p None = Inr (JNull, Some (lit ''HTTP 404: Not Found''))"
    using shopify_get_cases [of "\<lambda>_. Inr ?r2" ?h ?t ?p None ?r2]
    by (simp add: str_int_404) (simp add: lit_def)
  have 3: "shopify_get (\<lambda>_. Inl (lit ''timed out'')) ?h ?t ?p None
      = Inr (JNull, Some (lit ''timed out''))"
    using shopify_get_cases [of "\<lambda>_. Inl (lit ''timed out'')" ?h ?t ?p None _ _ "lit ''timed out''"]
    by simp
  have 4: "shopify_get (\<lambda>_. Inr ?r4) ?h ?t ?p None = Inr (JNull, Some (lit ''Expecting value''))"
    using shopify_get_cases [of "\<lambda>_. Inr ?r4" ?h ?t ?p None ?r4 _ "lit ''Expecting value''"]
    by simp
  from 1 2 3 4 show ?thesis by blast
qed

text \<open>
  C10. \<open>shopify_get\<close> never ends with an exception: whatever the network does, it returns
  a pair. An exception raised inside the \<open>try\<close>, by the request or by the parsing of
  the body of a 200 response, comes back as the error string of the pair.
\<close>

theorem shopify_get_never_raises:
  "(\<exists>data err. shopify_get net host token path ps = Inr (data, err))
   \<and> (\<forall>m. shopify_get_try net (shopify_request host token path ps) = Inl m
          \<longrightarrow> shopify_get net host token path ps = Inr (JNull, Some m))
   \<and> (\<forall>r m. net (shopify_request host token path ps) = Inr r \<and> status_code r = 200
            \<and> resp_json r = Inl m
          \<longrightarrow> shopify_get_try net (shopify_request host token path ps) = Inl m)
   \<and> (\<forall>m. net (shopify_request host token path ps) = Inl m
          \<longrightarrow> shopify_get_try net (shopify_request host token path ps) = Inl m)"
  using shopify_get_Inr [of net host token path ps]
  by (simp add: shopify_get_def shopify_get_try_def)

theorem shopify_get_never_raises_witness:
  "shopify_get_try (\<lambda>_. Inr \<lparr>status_code = 200, resp_text = lit ''<html>'',
                             resp_json = Inl (lit ''Expecting value'')\<rparr>)
      (shopify_request (lit ''acme.myshopify.com'') (lit ''tok'') (lit ''shop.json'') None)
     = Inl (lit ''Expecting value'')
   \<and> shopify_get (\<lambda>_. Inr \<lparr>status_code = 200, resp_text = lit ''<html>'',
                             resp_json = Inl (lit ''Expecting value'')\<rparr>)
      (lit ''acme.myshopify.com'') (lit ''tok'') (lit ''shop.json'') None
     = Inr (JNull, Some (lit ''Expecting value''))"
proof -
  let ?h = "lit ''acme.myshopify.com''" and ?t = "lit ''tok''" and ?p = "lit ''shop.json''"
  let ?r = "\<lparr>status_code = 200, resp_text = lit ''<html>'', resp_json = Inl (lit ''Expecting value'')\<rparr>"
  note t = shopify_get_never_raises [of "\<lambda>_. Inr ?r" ?h ?t ?p None]
  have a: "shopify_get_try (\<lambda>_. Inr ?r) (shopify_request ?h ?t ?p None) = Inl (lit ''Expecting value'')"
    using t by simp
  then have "shopify_get (\<lambda>_. Inr ?r) ?h ?t ?p None = Inr (JNull, Some (lit ''Expecting value''))"
    using t by blast
  with a show ?thesis by blast
qed

section \<open>Properties of the summary\<close>

lemma py_get_Inl: "py_get x key dflt = Inl e \<Longrightarrow> e = AttributeError"
  by (cases x) auto

lemma py_len_Inl: "py_len v = Inl e \<Longrightarrow> e = TypeError"
  by (cases v) auto

lemma resource_count_Inl: "resource_count x key = Inl e \<Longrightarrow> e = AttributeError \<or> e = TypeError"
  by (auto simp: resource_count_def split: if_splits sum.splits dest: py_get_Inl py_len_Inl)

lemma resource_list_Inl: "resource_list x key = Inl e \<Longrightarrow> e = AttributeError"
  by (auto simp: resource_list_def split: if_splits dest: py_get_Inl)

lemma build_summary_Inl:
  "build_summary dm ps os cs = Inl e \<Longrightarrow> e = AttributeError \<or> e = TypeError"
  by (auto simp: build_summary_def split: sum.splits
           dest: resource_count_Inl resource_list_Inl)

lemma find_integration_None [simp]: "find_integration None host = Inr None"
  by (simp add: find_integration_def)

lemma find_integration_true:
  "handle_test s = TestsTrue \<Longrightarrow>
     find_integration (Some s) host
       = Inr (find (\<lambda>d. domain (content d) = host) (shopifyintegration s))"
  by (simp add: find_integration_def)

lemma find_integration_raises:
  "handle_test s = TestRaises \<Longrightarrow> find_integration (Some s) host = Inl NotImplementedError"
  by (simp add: find_integration_def)

lemma shopify_summary_raises:
  assumes "find_integration db (normalize_domain raw) = Inl e"
  shows "shopify_summary net fault db raw = (Inl e, db)"
  using assms by (simp add: shopify_summary_def)

lemma shopify_summary_no_record:
  assumes "find_integration db (normalize_domain raw) = Inr None"
  shows "shopify_summary net fault db raw = (Inl not_found, db)"
  using assms by (simp add: shopify_summary_def)

lemma shopify_summary_record:
  assumes "find_integration db (normalize_domain raw) = Inr (Some i)"
    and "shopify_get net (normalize_domain raw) (access_token (content i)) (lit ''products.json'')
        (Some [(lit ''limit'', JInt 5)]) = Inr (ps, p_err)"
    and "shopify_get net (normalize_domain raw) (access_token (content i)) (lit ''orders.json'')
        (Some [(lit ''limit'', JInt 5), (lit ''status'', JStr (lit ''any''))]) = Inr (os, o_err)"
    and "shopify_get net (normalize_domain raw) (access_token (content i)) (lit ''customers.json'')
        (Some [(lit ''limit'', JInt 5)]) = Inr (cs, c_err)"
  shows "shopify_summary net fault db raw =
       (case (if truthy_err p_err \<and> truthy_err o_err \<and> truthy_err c_err
              then build_summary True demo_products demo_orders demo_customers
              else build_summary False ps os cs) of
          Inl e \<Rightarrow> (Inl e, db)
        | Inr summ \<Rightarrow> (Inr summ, cache_snapshot fault db (normalize_domain raw) summ))"
  using assms by (simp add: shopify_summary_def Let_def)

lemma fst_case_sum: "fst (case b of Inl e \<Rightarrow> (Inl e, x) | Inr v \<Rightarrow> (Inr v, g v)) = b"
  by (cases b) simp_all

lemma shopify_summary_record_fst:
  assumes "find_integration db (normalize_domain raw) = Inr (Some i)"
    and "shopify_get net (normalize_domain raw) (access_token (content i)) (lit ''products.json'')
        (Some [(lit ''limit'', JInt 5)]) = Inr (ps, p_err)"
    and "shopify_get net (normalize_domain raw) (access_token (content i)) (lit ''orders.json'')
        (Some [(lit ''limit'', JInt 5), (lit ''status'', JStr (lit ''any''))]) = Inr (os, o_err)"
    and "shopify_get net (normalize_domain raw) (access_token (content i)) (lit ''customers.json'')
        (Some [(lit ''limit'', JInt 5)]) = Inr (cs, c_err)"
  shows "fst (shopify_summary net fault db raw) =
       (if truthy_err p_err \<and> truthy_err o_err \<and> truthy_err c_err
        then build_summary True demo_products demo_orders demo_customers
        else build_summary False ps os cs)"
  unfolding shopify_summary_record [OF assms] by (rule fst_case_sum)

lemma shopify_summary_record_not_404:
  assumes "find_integration db (normalize_domain raw) = Inr (Some i)"
  shows "fst (shopify_summary net fault db raw) \<noteq> Inl (HTTPException code detail)"
proof -
  obtain ps p_err where p: "shopify_get net (normalize_domain raw) (access_token (content i))
      (lit ''products.json'') (Some [(lit ''limit'', JInt 5)]) = Inr (ps, p_err)"
    using shopify_get_Inr by blast
  obtain os o_err where o: "shopify_get net (normalize_domain raw) (access_token (content i))
      (lit ''orders.json'') (Some [(lit ''limit'', JInt 5), (lit ''status'', JStr (lit ''any''))])
      = Inr (os, o_err)"
    using shopify_get_Inr by blast
  obtain cs c_err where c: "shopify_get net (normalize_domain raw) (access_token (content i))
      (lit ''customers.json'') (Some [(lit ''limit'', JInt 5)]) = Inr (cs, c_err)"
    using shopify_get_Inr by blast
  show ?thesis
    unfolding shopify_summary_record_fst [OF assms p o c]
    using build_summary_Inl by (fastforce split: if_splits)
qed

lemma find_SomeD: "find P xs = Some x \<Longrightarrow> x \<in> set xs \<and> P x"
  by (induction xs) (auto split: if_splits)

text \<open>
  With a handle whose truth test returns, a summary request fails with the 404 error and
  the message \<open>Integration not found. Connect your store first.\<close> exactly when the store
  has no integration record for the normalised domain (with no store there is no record).
\<close>

lemma summary_not_found_iff_returns:
  assumes "db = None \<or> (\<exists>s. db = Some s \<and> handle_test s = TestsTrue)"
  shows "fst (shopify_summary net fault db raw)
      = Inl (HTTPException 404 (lit ''Integration not found. Connect your store first.''))
   \<longleftrightarrow> \<not> (\<exists>d\<in>set (stored_integrations db). domain (content d) = normalize_domain raw)"
proof -
  let ?P = "\<lambda>d. domain (content d) = normalize_domain raw"
  have fi: "find_integration db (normalize_domain raw) = Inr (find ?P (stored_integrations db))"
    using assms by (auto simp: find_integration_true stored_integrations_def)
  show ?thesis
  proof (cases "find ?P (stored_integrations db)")
    case None
    then have "\<not> (\<exists>d\<in>set (stored_integrations db). ?P d)"
      unfolding find_None_iff by blast
    moreover have "fst (shopify_summary net fault db raw) = Inl not_found"
      using fi None by (simp add: shopify_summary_no_record)
    ultimately show ?thesis unfolding not_found_def by blast
  next
    case (Some i)
    from find_SomeD [OF Some]
    have "\<exists>d\<in>set (stored_integrations db). ?P d" by blast
    moreover have "fst (shopify_summary net fault db raw)
        \<noteq> Inl (HTTPException 404 (lit ''Integration not found. Connect your store first.''))"
      using fi Some by (intro shopify_summary_record_not_404) simp
    ultimately show ?thesis by blast
  qed
qed

text \<open>
  C4, the failing input: the store is configured, its handle is a pymongo \<open>Database\<close>,
  which refuses the truth test, and there is no integration record for the domain. The
  test \<open>if db\<close> of the lookup raises \<open>NotImplementedError\<close>, and the request ends with it
  instead of the 404 error.
\<close>

theorem summary_truth_test_raises:
  "fst (shopify_summary (\<lambda>_. Inl (lit ''timed out'')) NoFault
          (Some \<lparr>handle_test = TestRaises, shopifyintegration = [], datasnapshot = []\<rparr>)
          (lit ''nope.myshopify.com''))
     = Inl NotImplementedError
   \<and> stored_integrations
        (Some \<lparr>handle_test = TestRaises, shopifyintegration = [], datasnapshot = []\<rparr>) = []"
  by (simp add: shopify_summary_raises find_integration_raises stored_integrations_def)

text \<open>
  C5. What a summary request returns (the summary, or the exception it ends with) does not
  depend on whether a store operation of the cache write fails: it is what the request
  returns when the write succeeds. A cache write that raises leaves the store as it was.
\<close>

theorem summary_cache_failure_swallowed:
  "fst (shopify_summary net fault db raw) = fst (shopify_summary net NoFault db raw)
   \<and> (cache_snapshot_try fault db host summ = None \<longrightarrow> cache_snapshot fault db host summ = db)"
proof -
  have "fst (shopify_summary net fault db raw) = fst (shopify_summary net NoFault db raw)"
  proof (cases "find_integration db (normalize_domain raw)")
    case (Inl e)
    then show ?thesis by (simp add: shopify_summary_raises)
  next
    case (Inr found)
    show ?thesis
    proof (cases found)
      case None
      with Inr show ?thesis by (simp add: shopify_summary_no_record)
    next
      case (Some i)
      with Inr have f: "find_integration db (normalize_domain raw) = Inr (Some i)" by simp
      obtain ps p_err where p: "shopify_get net (normalize_domain raw) (access_token (content i))
          (lit ''products.json'') (Some [(lit ''limit'', JInt 5)]) = Inr (ps, p_err)"
        using shopify_get_Inr by blast
      obtain os o_err where o: "shopify_get net (normalize_domain raw) (access_token (content i))
          (lit ''orders.json'') (Some [(lit ''limit'', JInt 5), (lit ''status'', JStr (lit ''any''))])
          = Inr (os, o_err)"
        using shopify_get_Inr by blast
      obtain cs c_err where c: "shopify_get net (normalize_domain raw) (access_token (content i))
          (lit ''customers.json'') (Some [(lit ''limit'', JInt 5)]) = Inr (cs, c_err)"
        using shopify_get_Inr by blast
      show ?thesis
        by (simp only: shopify_summary_record_fst [OF f p o c])
    qed
  qed
  then show ?thesis by (simp add: cache_snapshot_def)
qed

lemma resource_list_ok:
  "listing_ok key x \<Longrightarrow> resource_list x key = Inr (listing key x)"
  by (cases x) (auto simp: listing_ok_def resource_list_def listing_def split: option.splits if_splits)

lemma resource_count_ok:
  "listing_ok key x \<Longrightarrow> resource_count x key = Inr (size_of (listing key x))"
  by (cases x)
     (auto simp: listing_ok_def resource_count_def listing_def size_of_def
           split: option.splits if_splits sum.splits)

lemma build_summary_ok:
  assumes "listing_ok (lit ''products'') ps" "listing_ok (lit ''orders'') os"
    "listing_ok (lit ''customers'') cs"
  shows "build_summary dm ps os cs =
     Inr \<lparr>demo = dm,
          counts = \<lparr>n_products = size_of (listing (lit ''products'') ps),
                    n_orders = size_of (listing (lit ''orders'') os),
                    n_customers = size_of (listing (lit ''customers'') cs)\<rparr>,
          products = listing (lit ''products'') ps,
          orders = listing (lit ''orders'') os,
          customers = listing (lit ''customers'') cs\<rparr>"
  using assms by (simp add: build_summary_def resource_list_ok resource_count_ok)

lemma build_summary_demo:
  "build_summary True demo_products demo_orders demo_customers = Inr demo_summary"
proof -
  have "listing_ok (lit ''products'') demo_products" "listing_ok (lit ''orders'') demo_orders"
    "listing_ok (lit ''customers'') demo_customers"
    by (simp_all add: listing_ok_def demo_products_def demo_orders_def demo_customers_def)
  from build_summary_ok [OF this] show ?thesis
    by (simp add: demo_summary_def)
       (simp add: size_of_def listing_def demo_products_def demo_orders_def demo_customers_def)
qed


theorem summary_cache_failure_swallowed_witness:
  "fst (shopify_summary (\<lambda>_. Inl (lit ''timed out'')) WriteFault
          (Some \<lparr>handle_test = TestsTrue, shopifyintegration =
                   [\<lparr>doc_id = 1, content = \<lparr>domain = lit ''acme.myshopify.com'',
                      access_token = lit ''tok'', store_name = JNull, scopes = JNull\<rparr>\<rparr>],
                 datasnapshot = []\<rparr>) (lit ''acme''))
     = Inr demo_summary
   \<and> shopify_summary (\<lambda>_. Inl (lit ''timed out'')) NoFault
          (Some \<lparr>handle_test = TestsTrue, shopifyintegration =
                   [\<lparr>doc_id = 1, content = \<lparr>domain = lit ''acme.myshopify.com'',
                      access_token = lit ''tok'', store_name = JNull, scopes = JNull\<rparr>\<rparr>],
                 datasnapshot = []\<rparr>) (lit ''acme'')
     = (Inr demo_summary,
        Some \<lparr>handle_test = TestsTrue, shopifyintegration =
                   [\<lparr>doc_id = 1, content = \<lparr>domain = lit ''acme.myshopify.com'',
                      access_token = lit ''tok'', store_name = JNull, scopes = JNull\<rparr>\<rparr>],
              datasnapshot =
                   [\<lparr>doc_id = 1, content = \<lparr>snap_domain = lit ''acme.myshopify.com'',
                      snap_data = demo_summary\<rparr>\<rparr>]\<rparr>)
   \<and> cache_snapshot_try WriteFault
          (Some \<lparr>handle_test = TestsTrue, shopifyintegration =
                   [\<lparr>doc_id = 1, content = \<lparr>domain = lit ''acme.myshopify.com'',
                      access_token = lit ''tok'', store_name = JNull, scopes = JNull\<rparr>\<rparr>],
                 datasnapshot = []\<rparr>) (lit ''acme.myshopify.com'') demo_summary = None
   \<and> cache_snapshot WriteFault
          (Some \<lparr>handle_test = TestsTrue, shopifyintegration =
                   [\<lparr>doc_id = 1, content = \<lparr>domain = lit ''acme.myshopify.com'',
                      access_token = lit ''tok'', store_name = JNull, scopes = JNull\<rparr>\<rparr>],
                 datasnapshot = []\<rparr>) (lit ''acme.myshopify.com'') demo_summary
     = Some \<lparr>handle_test = TestsTrue, shopifyintegration =
                   [\<lparr>doc_id = 1, content = \<lparr>domain = lit ''acme.myshopify.com'',
                      access_token = lit ''tok'', store_name = JNull, scopes = JNull\<rparr>\<rparr>],
                 datasnapshot = []\<rparr>"
proof -
  let ?i = "\<lparr>doc_id = 1, content = \<lparr>domain = lit ''acme.myshopify.com'',
                      access_token = lit ''tok'', store_name = JNull, scopes = JNull\<rparr>\<rparr>"
  let ?s = "\<lparr>handle_test = TestsTrue, shopifyintegration = [?i], datasnapshot = []\<rparr>"
  let ?net = "\<lambda>_::request. Inl (lit ''timed out'') :: pystr + response"
  have f: "find_integration (Some ?s) (normalize_domain (lit ''acme'')) = Inr (Some ?i)"
    by (simp add: find_integration_true normalize_example_2)
  have g: "shopify_get ?net h t p q = Inr (JNull, Some (lit ''timed out''))" for h t p q
    by (simp add: shopify_get_def shopify_get_try_def)
  have ok: "shopify_summary ?net NoFault (Some ?s) (lit ''acme'')
      = (Inr demo_summary,
         cache_snapshot NoFault (Some ?s) (normalize_domain (lit ''acme'')) demo_summary)"
    unfolding shopify_summary_record [OF f g g g] by (simp add: build_summary_demo)
  have cs: "cache_snapshot NoFault (Some ?s) (normalize_domain (lit ''acme'')) demo_summary
      = Some \<lparr>handle_test = TestsTrue, shopifyintegration = [?i],
              datasnapshot = [\<lparr>doc_id = 1, content = \<lparr>snap_domain = lit ''acme.myshopify.com'',
                      snap_data = demo_summary\<rparr>\<rparr>]\<rparr>"
    by (simp add: cache_snapshot_def cache_snapshot_try_def create_document_datasnapshot_def
          fresh_id_def normalize_example_2)
  have t: "cache_snapshot_try WriteFault (Some ?s) (lit ''acme.myshopify.com'') demo_summary = None"
    by (simp add: cache_snapshot_try_def)
  note inst = summary_cache_failure_swallowed
    [where fault = WriteFault and db = "Some ?s" and host = "lit ''acme.myshopify.com''"
       and summ = demo_summary and net = ?net and raw = "lit ''acme''"]
  from inst ok have 1: "fst (shopify_summary ?net WriteFault (Some ?s) (lit ''acme'')) = Inr demo_summary"
    by simp
  from inst t have 2: "cache_snapshot WriteFault (Some ?s) (lit ''acme.myshopify.com'') demo_summary
      = Some ?s"
    by blast
  from 1 2 t ok cs show ?thesis by simp
qed

text \<open>
  C1 (amended). For a summary request on a store whose handle tests true and that has the
  integration record, when every fetch that failed has a non-empty error string and every
  body that came back can be read for its resource (a false value, or a dict whose entry
  for the resource, if present, has a length): a summary is returned; it has
  \<open>demo = true\<close> and is the demo payload, with the counts 2, 2 and 2, exactly when all
  three fetches returned an error; otherwise \<open>demo = false\<close>, each resource is the entry
  of its own body with its length as the count, and a resource whose own fetch failed is
  the empty list with count 0.
\<close>

theorem summary_demo_fallback:
  assumes h: "handle_test s = TestsTrue"
    and r: "find (\<lambda>d. domain (content d) = normalize_domain raw) (shopifyintegration s) = Some i"
    and p: "shopify_get net (normalize_domain raw) (access_token (content i)) (lit ''products.json'')
        (Some [(lit ''limit'', JInt 5)]) = Inr (ps, p_err)"
    and o: "shopify_get net (normalize_domain raw) (access_token (content i)) (lit ''orders.json'')
        (Some [(lit ''limit'', JInt 5), (lit ''status'', JStr (lit ''any''))]) = Inr (os, o_err)"
    and c: "shopify_get net (normalize_domain raw) (access_token (content i)) (lit ''customers.json'')
        (Some [(lit ''limit'', JInt 5)]) = Inr (cs, c_err)"
    and ne: "p_err \<noteq> Some []" "o_err \<noteq> Some []" "c_err \<noteq> Some []"
    and ok: "listing_ok (lit ''products'') ps" "listing_ok (lit ''orders'') os"
        "listing_ok (lit ''customers'') cs"
  shows "\<exists>summ. fst (shopify_summary net fault (Some s) raw) = Inr summ
     \<and> (demo summ \<and> summ = demo_summary \<longleftrightarrow> p_err \<noteq> None \<and> o_err \<noteq> None \<and> c_err \<noteq> None)
     \<and> (demo summ \<longleftrightarrow> p_err \<noteq> None \<and> o_err \<noteq> None \<and> c_err \<noteq> None)
     \<and> n_products (counts demo_summary) = 2 \<and> n_orders (counts demo_summary) = 2
     \<and> n_customers (counts demo_summary) = 2
     \<and> (p_err = None \<or> o_err = None \<or> c_err = None \<longrightarrow>
          products summ = listing (lit ''products'') ps
        \<and> orders summ = listing (lit ''orders'') os
        \<and> customers summ = listing (lit ''customers'') cs
        \<and> n_products (counts summ) = size_of (products summ)
        \<and> n_orders (counts summ) = size_of (orders summ)
        \<and> n_customers (counts summ) = size_of (customers summ)
        \<and> (p_err \<noteq> None \<longrightarrow> products summ = JArr [] \<and> n_products (counts summ) = 0)
        \<and> (o_err \<noteq> None \<longrightarrow> orders summ = JArr [] \<and> n_orders (counts summ) = 0)
        \<and> (c_err \<noteq> None \<longrightarrow> customers summ = JArr [] \<and> n_customers (counts summ) = 0))"
proof -
  have f: "find_integration (Some s) (normalize_domain raw) = Inr (Some i)"
    using h r by (simp add: find_integration_true)
  have t: "truthy_err p_err \<longleftrightarrow> p_err \<noteq> None" "truthy_err o_err \<longleftrightarrow> o_err \<noteq> None"
    "truthy_err c_err \<longleftrightarrow> c_err \<noteq> None"
    using ne by (cases p_err; cases o_err; cases c_err; simp)+
  have n: "p_err \<noteq> None \<Longrightarrow> ps = JNull" "o_err \<noteq> None \<Longrightarrow> os = JNull"
    "c_err \<noteq> None \<Longrightarrow> cs = JNull"
    using p o c shopify_get_err_body by blast+
  have e: "listing key JNull = JArr []" "size_of (JArr []) = 0" for key
    by (simp_all add: listing_def size_of_def)
  have c2: "n_products (counts demo_summary) = 2 \<and> n_orders (counts demo_summary) = 2
     \<and> n_customers (counts demo_summary) = 2"
    by (simp add: demo_summary_def)
  show ?thesis
  proof (cases "p_err \<noteq> None \<and> o_err \<noteq> None \<and> c_err \<noteq> None")
    case True
    then have "fst (shopify_summary net fault (Some s) raw) = Inr demo_summary"
      unfolding shopify_summary_record_fst [OF f p o c]
      by (simp add: t build_summary_demo)
    moreover have "demo demo_summary" by (simp add: demo_summary_def)
    ultimately show ?thesis using True c2 by auto
  next
    case False
    let ?s = "\<lparr>demo = False,
          counts = \<lparr>n_products = size_of (listing (lit ''products'') ps),
                    n_orders = size_of (listing (lit ''orders'') os),
                    n_customers = size_of (listing (lit ''customers'') cs)\<rparr>,
          products = listing (lit ''products'') ps,
          orders = listing (lit ''orders'') os,
          customers = listing (lit ''customers'') cs\<rparr>"
    have "\<not> (truthy_err p_err \<and> truthy_err o_err \<and> truthy_err c_err)"
      using False unfolding t by blast
    then have "fst (shopify_summary net fault (Some s) raw) = Inr ?s"
      unfolding shopify_summary_record_fst [OF f p o c]
      by (simp only: if_False build_summary_ok [OF ok])
    moreover have "\<not> demo ?s" by simp
    moreover have "p_err \<noteq> None \<longrightarrow> products ?s = JArr [] \<and> n_products (counts ?s) = 0"
      using n(1) by (simp add: e)
    moreover have "o_err \<noteq> None \<longrightarrow> orders ?s = JArr [] \<and> n_orders (counts ?s) = 0"
      using n(2) by (simp add: e)
    moreover have "c_err \<noteq> None \<longrightarrow> customers ?s = JArr [] \<and> n_customers (counts ?s) = 0"
      using n(3) by (simp add: e)
    ultimately show ?thesis using False c2
      by (intro exI [of _ ?s]) (simp add: e)
  qed
qed

theorem summary_demo_fallback_witness:
  "fst (shopify_summary (\<lambda>_. Inl (lit ''timed out'')) NoFault
          (Some \<lparr>handle_test = TestsTrue, shopifyintegration =
                   [\<lparr>doc_id = 1, content = \<lparr>domain = lit ''acme.myshopify.com'',
                      access_token = lit ''tok'', store_name = JNull, scopes = JNull\<rparr>\<rparr>],
                 datasnapshot = []\<rparr>) (lit ''acme''))
     = Inr demo_summary
   \<and> fst (shopify_summary
          (\<lambda>req. if url req = lit ''https://acme.myshopify.com/admin/api/2024-04/products.json''
                  then Inr \<lparr>status_code = 200, resp_text = [],
                            resp_json = Inr (JObj [(lit ''products'', JArr [JObj [(lit ''id'', JInt 7)]])])\<rparr>
                  else Inr \<lparr>status_code = 403, resp_text = lit ''Forbidden'',
                            resp_json = Inl (lit ''Expecting value'')\<rparr>)
          NoFault
          (Some \<lparr>handle_test = TestsTrue, shopifyintegration =
                   [\<lparr>doc_id = 1, content = \<lparr>domain = lit ''acme.myshopify.com'',
                      access_token = lit ''tok'', store_name = JNull, scopes = JNull\<rparr>\<rparr>],
                 datasnapshot = []\<rparr>) (lit ''acme''))
     = Inr \<lparr>demo = False, counts = \<lparr>n_products = 1, n_orders = 0, n_customers = 0\<rparr>,
            products = JArr [JObj [(lit ''id'', JInt 7)]], orders = JArr [], customers = JArr []\<rparr>"
proof -
  let ?i = "\<lparr>doc_id = 1, content = \<lparr>domain = lit ''acme.myshopify.com'',
                      access_token = lit ''tok'', store_name = JNull, scopes = JNull\<rparr>\<rparr>"
  let ?st = "\<lparr>handle_test = TestsTrue, shopifyintegration = [?i], datasnapshot = []\<rparr>"
  have h: "handle_test ?st = TestsTrue" by simp
  have f: "find (\<lambda>d. domain (content d) = normalize_domain (lit ''acme''))
      (shopifyintegration ?st) = Some ?i"
    by (simp add: normalize_example_2)
  have ne: "Some (lit ''timed out'') \<noteq> Some []" by simp
  have ok: "listing_ok key JNull" for key by (simp add: listing_ok_def)
  let ?n1 = "\<lambda>_::request. Inl (lit ''timed out'') :: pystr + response"
  have g1: "shopify_get ?n1 h t p q = Inr (JNull, Some (lit ''timed out''))" for h t p q
    by (simp add: shopify_get_def shopify_get_try_def)
  from summary_demo_fallback [OF h f g1 g1 g1 ne ne ne ok ok ok, of NoFault]
  obtain s1 where "fst (shopify_summary ?n1 NoFault (Some ?st) (lit ''acme'')) = Inr s1"
    and "demo s1 \<and> s1 = demo_summary \<longleftrightarrow>
      Some (lit ''timed out'') \<noteq> None \<and> Some (lit ''timed out'') \<noteq> None
      \<and> Some (lit ''timed out'') \<noteq> None"
    by blast
  then have 1: "fst (shopify_summary ?n1 NoFault (Some ?st) (lit ''acme'')) = Inr demo_summary"
    by simp
  let ?n2 = "\<lambda>req. if url req = lit ''https://acme.myshopify.com/admin/api/2024-04/products.json''
                  then Inr \<lparr>status_code = 200, resp_text = [],
                            resp_json = Inr (JObj [(lit ''products'', JArr [JObj [(lit ''id'', JInt 7)]])])\<rparr>
                  else Inr \<lparr>status_code = 403, resp_text = lit ''Forbidden'',
                            resp_json = Inl (lit ''Expecting value'')\<rparr>"
  let ?e = "lit ''HTTP '' @ str_int 403 @ lit '': '' @ take 200 (lit ''Forbidden'')"
  let ?b = "JObj [(lit ''products'', JArr [JObj [(lit ''id'', JInt 7)]])]"
  have p: "shopify_get ?n2 (normalize_domain (lit ''acme'')) (access_token (content ?i))
      (lit ''products.json'') (Some [(lit ''limit'', JInt 5)]) = Inr (?b, None)"
    unfolding normalize_example_2
    by (simp add: shopify_get_def shopify_get_try_def shopify_request_def lit_def)
  have o: "shopify_get ?n2 (normalize_domain (lit ''acme'')) (access_token (content ?i))
      (lit ''orders.json'') (Some [(lit ''limit'', JInt 5), (lit ''status'', JStr (lit ''any''))])
      = Inr (JNull, Some ?e)"
    unfolding normalize_example_2
    by (simp add: shopify_get_def shopify_get_try_def shopify_request_def lit_def)
  have c: "shopify_get ?n2 (normalize_domain (lit ''acme'')) (access_token (content ?i))
      (lit ''customers.json'') (Some [(lit ''limit'', JInt 5)]) = Inr (JNull, Some ?e)"
    unfolding normalize_example_2
    by (simp add: shopify_get_def shopify_get_try_def shopify_request_def lit_def)
  have ne2: "Some ?e \<noteq> Some []" "(None :: pystr option) \<noteq> Some []" by simp_all
  have okb: "listing_ok (lit ''products'') ?b" by (simp add: listing_ok_def)
  note t2 = summary_demo_fallback [OF h f p o c ne2(2) ne2(1) ne2(1) okb ok ok, of NoFault]
  have d: "(None :: pystr option) = None \<or> Some ?e = None \<or> Some ?e = None"
    and d2: "Some ?e \<noteq> None" by simp_all
  from t2 d d2
  obtain summ where s: "fst (shopify_summary ?n2 NoFault (Some ?st) (lit ''acme'')) = Inr summ"
    and "demo summ \<longleftrightarrow> (None :: pystr option) \<noteq> None \<and> Some ?e \<noteq> None \<and> Some ?e \<noteq> None"
    and "products summ = listing (lit ''products'') ?b"
    "orders summ = JArr []" "customers summ = JArr []"
    "n_products (counts summ) = size_of (products summ)"
    "n_orders (counts summ) = 0" "n_customers (counts summ) = 0"
    by blast
  then have "summ = \<lparr>demo = False, counts = \<lparr>n_products = 1, n_orders = 0, n_customers = 0\<rparr>,
            products = JArr [JObj [(lit ''id'', JInt 7)]], orders = JArr [], customers = JArr []\<rparr>"
    by (cases summ, cases "counts summ") (simp add: listing_def size_of_def)
  with s 1 show ?thesis by blast
qed

text \<open>
  C1 as stated fails. A fetch can succeed with a body that the summary cannot read: with
  the body \<open>{"products": null}\<close> the request ends with \<open>TypeError\<close>, from \<open>len(None)\<close>, and
  there is no response. And the fallback tests the error strings for truth: when the three
  requests raise an exception whose description is empty, all three fetches return an
  error and the response has \<open>demo = false\<close> and empty lists.
\<close>

theorem summary_not_always_demo_or_real:
  "fst (shopify_summary
          (\<lambda>_. Inr \<lparr>status_code = 200, resp_text = [],
                     resp_json = Inr (JObj [(lit ''products'', JNull)])\<rparr>)
          NoFault
          (Some \<lparr>handle_test = TestsTrue, shopifyintegration =
                   [\<lparr>doc_id = 1, content = \<lparr>domain = lit ''acme.myshopify.com'',
                      access_token = lit ''tok'', store_name = JNull, scopes = JNull\<rparr>\<rparr>],
                 datasnapshot = []\<rparr>) (lit ''acme''))
     = Inl TypeError
   \<and> fst (shopify_summary (\<lambda>_. Inl []) NoFault
          (Some \<lparr>handle_test = TestsTrue, shopifyintegration =
                   [\<lparr>doc_id = 1, content = \<lparr>domain = lit ''acme.myshopify.com'',
                      access_token = lit ''tok'', store_name = JNull, scopes = JNull\<rparr>\<rparr>],
                 datasnapshot = []\<rparr>) (lit ''acme''))
     = Inr \<lparr>demo = False, counts = \<lparr>n_products = 0, n_orders = 0, n_customers = 0\<rparr>,
            products = JArr [], orders = JArr [], customers = JArr []\<rparr>"
  by (simp add: shopify_summary_def find_integration_def normalize_example_2 shopify_get_def
        shopify_get_try_def build_summary_def resource_count_def resource_list_def Let_def)

section \<open>Properties of connect\<close>

lemma map_update_one:
  "(\<And>x. x \<in> set xs \<Longrightarrow> P x \<Longrightarrow> g (f x) = g x) \<Longrightarrow> map g (update_one P f xs) = map g xs"
  by (induction xs) auto

lemma update_one_ex:
  "\<exists>x\<in>set xs. P x \<Longrightarrow> \<exists>x\<in>set xs. P x \<and> f x \<in> set (update_one P f xs)"
  by (induction xs) auto

lemma foldr_max_ge: "x \<in> set xs \<Longrightarrow> x \<le> foldr max xs (0::nat)"
  by (induction xs) (auto simp: max_def)

lemma fresh_id_notin: "fresh_id coll \<notin> doc_id ` set coll"
proof
  assume "fresh_id coll \<in> doc_id ` set coll"
  then have "fresh_id coll \<in> set (map doc_id coll)" by simp
  from foldr_max_ge [OF this] show False by (simp add: fresh_id_def)
qed

lemma distinct_filter_single:
  "distinct (map g xs) \<Longrightarrow> d \<in> set xs \<Longrightarrow> filter (\<lambda>x. g x = g d) xs = [d]"
proof (induction xs)
  case Nil
  then show ?case by simp
next
  case (Cons a xs)
  show ?case
  proof (cases "a = d")
    case True
    have "g x \<noteq> g d" if "x \<in> set xs" for x
      using Cons.prems(1) True that by (metis distinct.simps(2) imageI list.simps(9) set_map)
    then have "filter (\<lambda>x. g x = g d) xs = []"
      by (simp add: filter_empty_conv)
    then show ?thesis using True by simp
  next
    case False
    then have "d \<in> set xs" using Cons.prems(2) by simp
    then have "g a \<noteq> g d" using Cons.prems(1) by auto
    then show ?thesis using Cons \<open>d \<in> set xs\<close> by simp
  qed
qed

lemma find_append:
  "find P (xs @ ys) = (case find P xs of None \<Rightarrow> find P ys | Some x \<Rightarrow> Some x)"
  by (induction xs) auto

lemma filter_Cons_find: "filter P xs = e # es \<Longrightarrow> find P xs = Some e"
  by (induction xs) (auto split: if_splits)

lemma filter_Nil_find: "filter P xs = [] \<Longrightarrow> find P xs = None"
  by (induction xs) (auto split: if_splits)

lemma find_update_other:
  "find P xs = Some e \<Longrightarrow> Q e \<Longrightarrow> (\<And>x. P (f x)) \<Longrightarrow>
     \<exists>x. find P (update_one Q f xs) = Some (f x)"
  by (induction xs) (auto split: if_splits)

lemma find_update_same:
  "find P xs = Some d \<Longrightarrow> P (f d) \<Longrightarrow> find P (update_one P f xs) = Some (f d)"
  by (induction xs) (auto split: if_splits)

text \<open>What the saving step of connect does to a store that is present.\<close>

lemma existing_integrations_true:
  "handle_test s = TestsTrue \<Longrightarrow>
     existing_integrations (Some s) host
       = Inr (filter (\<lambda>d. domain (content d) = host) (shopifyintegration s))"
  by (simp add: existing_integrations_def)

lemma save_integration_raises:
  "handle_test s = TestRaises \<Longrightarrow>
     save_integration (Some s) doc = (Inl NotImplementedError, Some s)"
  by (simp add: save_integration_def existing_integrations_def)

lemma save_integration_Some:
  assumes "handle_test s = TestsTrue"
  shows "\<exists>i s' d. save_integration (Some s) doc = (Inr i, Some s')
     \<and> datasnapshot s' = datasnapshot s \<and> handle_test s' = TestsTrue
     \<and> find (\<lambda>d. domain (content d) = domain doc) (shopifyintegration s') = Some d
     \<and> content d = doc"
proof (cases "filter (\<lambda>d. domain (content d) = domain doc) (shopifyintegration s)")
  case Nil
  then show ?thesis
    using assms
    by (simp add: save_integration_def existing_integrations_true
          create_document_shopifyintegration_def Let_def find_append filter_Nil_find)
next
  case (Cons e es)
  from find_update_other [OF filter_Cons_find [OF Cons], of "\<lambda>d. doc_id d = doc_id e"
      "\<lambda>d. d\<lparr>content := doc\<rparr>"]
  obtain x where "find (\<lambda>d. domain (content d) = domain doc)
      (update_one (\<lambda>d. doc_id d = doc_id e) (\<lambda>d. d\<lparr>content := doc\<rparr>) (shopifyintegration s))
      = Some (x\<lparr>content := doc\<rparr>)"
    by auto
  then show ?thesis using Cons assms
    by (simp add: save_integration_def existing_integrations_true)
qed

lemma save_integration_inv:
  assumes "store_inv s" "save_integration (Some s) doc = (r, db')" "handle_test s = TestsTrue"
  shows "\<exists>s' d. db' = Some s' \<and> store_inv s' \<and> records_of (domain doc) s' = [d] \<and> content d = doc"
proof (cases "filter (\<lambda>d. domain (content d) = domain doc) (shopifyintegration s)")
  case Nil
  then have "domain doc \<notin> (\<lambda>d. domain (content d)) ` set (shopifyintegration s)"
    by (auto simp: filter_empty_conv)
  then show ?thesis
    using assms Nil fresh_id_notin [of "shopifyintegration s"]
    by (auto simp: save_integration_def existing_integrations_true
          create_document_shopifyintegration_def Let_def store_inv_def records_of_def)
next
  case (Cons e es)
  let ?c = "shopifyintegration s"
  let ?c' = "update_one (\<lambda>d. doc_id d = doc_id e) (\<lambda>d. d\<lparr>content := doc\<rparr>) ?c"
  have "e \<in> set (filter (\<lambda>d. domain (content d) = domain doc) ?c)"
    unfolding Cons by simp
  then have e: "e \<in> set ?c" "domain (content e) = domain doc"
    by simp_all
  have same: "x = e" if "x \<in> set ?c" "doc_id x = doc_id e" for x
    using assms(1) that e(1) by (auto simp: store_inv_def distinct_map dest: inj_onD)
  have ids: "map doc_id ?c' = map doc_id ?c"
    by (rule map_update_one) simp
  have doms: "map (\<lambda>d. domain (content d)) ?c' = map (\<lambda>d. domain (content d)) ?c"
  proof (rule map_update_one)
    fix x assume "x \<in> set ?c" "doc_id x = doc_id e"
    then have "x = e" by (rule same)
    then show "domain (content (x\<lparr>content := doc\<rparr>)) = domain (content x)"
      using e(2) by simp
  qed
  have db': "db' = Some (s\<lparr>shopifyintegration := ?c'\<rparr>)"
    using assms(2,3) Cons by (simp add: save_integration_def existing_integrations_true)
  have inv: "store_inv (s\<lparr>shopifyintegration := ?c'\<rparr>)"
    using assms(1) by (simp add: store_inv_def ids doms)
  from update_one_ex [of ?c "\<lambda>d. doc_id d = doc_id e" "\<lambda>d. d\<lparr>content := doc\<rparr>"] e(1)
  obtain x where "x \<in> set ?c" "doc_id x = doc_id e" "x\<lparr>content := doc\<rparr> \<in> set ?c'"
    by blast
  then have m: "e\<lparr>content := doc\<rparr> \<in> set ?c'" using same by blast
  have "distinct (map (\<lambda>d. domain (content d)) ?c')"
    using inv by (simp add: store_inv_def)
  from distinct_filter_single [OF this m]
  have "records_of (domain doc) (s\<lparr>shopifyintegration := ?c'\<rparr>) = [e\<lparr>content := doc\<rparr>]"
    by (simp add: records_of_def)
  with db' inv show ?thesis by auto
qed


lemma set_store_name_inv:
  assumes "store_inv s" "records_of host s = [d]"
  shows "\<exists>s' d'. set_store_name (Some s) host n = Inr (Some s') \<and> store_inv s'
     \<and> records_of host s' = [d'] \<and> access_token (content d') = access_token (content d)"
proof -
  let ?f = "\<lambda>d. d\<lparr>content := (content d)\<lparr>store_name := n\<rparr>\<rparr>"
  let ?c = "shopifyintegration s"
  let ?c' = "update_one (\<lambda>d. domain (content d) = host) ?f ?c"
  have ids: "map doc_id ?c' = map doc_id ?c" by (rule map_update_one) simp
  have doms: "map (\<lambda>d. domain (content d)) ?c' = map (\<lambda>d. domain (content d)) ?c"
    by (rule map_update_one) simp
  have inv: "store_inv (s\<lparr>shopifyintegration := ?c'\<rparr>)"
    using assms(1) by (simp add: store_inv_def ids doms)
  have "d \<in> set (filter (\<lambda>d. domain (content d) = host) ?c)"
    using assms(2) by (simp add: records_of_def)
  then have d: "d \<in> set ?c" "domain (content d) = host" by simp_all
  have only: "x = d" if "x \<in> set ?c" "domain (content x) = host" for x
  proof -
    have "x \<in> set (filter (\<lambda>d. domain (content d) = host) ?c)" using that by simp
    also have "filter (\<lambda>d. domain (content d) = host) ?c = [d]"
      using assms(2) by (simp add: records_of_def)
    finally show ?thesis by simp
  qed
  from update_one_ex [of ?c "\<lambda>d. domain (content d) = host" ?f] d
  obtain x where "x \<in> set ?c" "domain (content x) = host" "?f x \<in> set ?c'" by blast
  then have m: "?f d \<in> set ?c'" using only by blast
  have "distinct (map (\<lambda>d. domain (content d)) ?c')" using inv by (simp add: store_inv_def)
  from distinct_filter_single [OF this m]
  have "records_of host (s\<lparr>shopifyintegration := ?c'\<rparr>) = [?f d]"
    using d(2) by (simp add: records_of_def)
  with inv show ?thesis by (simp add: set_store_name_def)
qed

lemma connect_shopify_Some:
  assumes "save_integration (Some s)
      \<lparr>domain = normalize_domain (payload_domain p), access_token = payload_access_token p,
       store_name = JNull, scopes = JNull\<rparr> = (Inr i, Some s1)"
    and "shopify_get net (normalize_domain (payload_domain p)) (payload_access_token p)
      (lit ''shop.json'') None = Inr (data, err)"
  shows "connect_shopify net (Some s) p =
     (case shop_name_of data of
        Inl e \<Rightarrow> (Inl e, Some s1)
      | Inr name \<Rightarrow>
          (Inr \<lparr>ok = True, resp_id = i, resp_domain = normalize_domain (payload_domain p),
                verified = (\<not> truthy_err err), resp_store_name = name\<rparr>,
           if truthy name
           then Some (s1\<lparr>shopifyintegration :=
                  update_one (\<lambda>d. domain (content d) = normalize_domain (payload_domain p))
                    (\<lambda>d. d\<lparr>content := (content d)\<lparr>store_name := name\<rparr>\<rparr>)
                    (shopifyintegration s1)\<rparr>)
           else Some s1))"
  using assms
  by (simp add: connect_shopify_def set_store_name_def Let_def split: sum.splits)

lemma connect_shopify_raises:
  "handle_test s = TestRaises \<Longrightarrow>
     connect_shopify net (Some s) p = (Inl NotImplementedError, Some s)"
  by (simp add: connect_shopify_def save_integration_raises)

lemma connect_shopify_inv:
  assumes "store_inv s" "handle_test s = TestsTrue" "connect_shopify net (Some s) p = (r, db')"
  shows "\<exists>s' d. db' = Some s' \<and> store_inv s' \<and> handle_test s' = TestsTrue
     \<and> records_of (normalize_domain (payload_domain p)) s' = [d]
     \<and> access_token (content d) = payload_access_token p"
proof -
  let ?host = "normalize_domain (payload_domain p)"
  let ?doc = "\<lparr>domain = ?host, access_token = payload_access_token p,
       store_name = JNull, scopes = JNull\<rparr>"
  obtain i s1 where sv: "save_integration (Some s) ?doc = (Inr i, Some s1)"
    and h1: "handle_test s1 = TestsTrue"
    using save_integration_Some [OF assms(2), of ?doc] by blast
  from save_integration_inv [OF assms(1) sv assms(2)]
  obtain d where s1: "store_inv s1" "records_of ?host s1 = [d]" "content d = ?doc"
    by auto
  obtain data err where g: "shopify_get net ?host (payload_access_token p)
      (lit ''shop.json'') None = Inr (data, err)"
    using shopify_get_Inr by blast
  note c = connect_shopify_Some [OF sv g]
  show ?thesis
  proof (cases "shop_name_of data")
    case (Inl e)
    then have "db' = Some s1" using c assms(3) by simp
    with s1 h1 show ?thesis by simp
  next
    case (Inr name)
    show ?thesis
    proof (cases "truthy name")
      case False
      then have "db' = Some s1" using c assms(3) Inr by simp
      with s1 h1 show ?thesis by simp
    next
      case True
      from set_store_name_inv [OF s1(1,2), of name]
      obtain s2 d2 where s2: "set_store_name (Some s1) ?host name = Inr (Some s2)"
        "store_inv s2" "records_of ?host s2 = [d2]"
        "access_token (content d2) = access_token (content d)"
        by blast
      have db': "db' = Some s2"
        using c assms(3) Inr True s2(1) by (simp add: set_store_name_def)
      have "handle_test s2 = TestsTrue"
        using s2(1) h1 by (auto simp: set_store_name_def)
      with db' s2 s1(3) show ?thesis by simp
    qed
  qed
qed

text \<open>Whatever the handle does when it is tested, connect keeps the invariant.\<close>

lemma connect_shopify_keeps_inv:
  assumes "store_inv s" "connect_shopify net (Some s) p = (r, db')"
  shows "\<exists>s'. db' = Some s' \<and> store_inv s'"
proof (cases "handle_test s")
  case TestsTrue
  from connect_shopify_inv [OF assms(1) TestsTrue assms(2)] show ?thesis by blast
next
  case TestRaises
  then have "db' = Some s" using assms(2) by (simp add: connect_shopify_raises)
  with assms(1) show ?thesis by simp
qed

lemma cache_snapshot_integrations:
  "stored_integrations (cache_snapshot fault db host summ) = stored_integrations db"
  by (cases db)
     (auto simp: cache_snapshot_def cache_snapshot_try_def stored_integrations_def
        create_document_datasnapshot_def Let_def split: option.splits)

lemma shopify_summary_integrations:
  "stored_integrations (snd (shopify_summary net fault db raw)) = stored_integrations db"
proof (cases "find_integration db (normalize_domain raw)")
  case (Inl e)
  then show ?thesis by (simp add: shopify_summary_raises)
next
  case (Inr found)
  show ?thesis
  proof (cases found)
    case None
    with Inr show ?thesis by (simp add: shopify_summary_no_record)
  next
    case (Some i)
    with Inr have f: "find_integration db (normalize_domain raw) = Inr (Some i)" by simp
    obtain ps p_err where p: "shopify_get net (normalize_domain raw) (access_token (content i))
        (lit ''products.json'') (Some [(lit ''limit'', JInt 5)]) = Inr (ps, p_err)"
      using shopify_get_Inr by blast
    obtain os o_err where o: "shopify_get net (normalize_domain raw) (access_token (content i))
        (lit ''orders.json'') (Some [(lit ''limit'', JInt 5), (lit ''status'', JStr (lit ''any''))])
        = Inr (os, o_err)"
      using shopify_get_Inr by blast
    obtain cs c_err where c: "shopify_get net (normalize_domain raw) (access_token (content i))
        (lit ''customers.json'') (Some [(lit ''limit'', JInt 5)]) = Inr (cs, c_err)"
      using shopify_get_Inr by blast
    show ?thesis
      unfolding shopify_summary_record [OF f p o c]
      by (simp add: cache_snapshot_integrations split: sum.splits)
  qed
qed

text \<open>
  C7 (amended). The empty store has at most one integration record for each domain, and
  every document its own \<open>_id\<close>; a connect request on a configured store keeps this,
  whatever its outcome, and the summary does not touch the integration records. On a
  configured store whose handle tests true, a connect request leaves exactly one record
  for its normalised domain, with the token of the request; so after two connect requests
  for the same domain there is exactly one record for it, and its token is that of the
  second request.
\<close>

theorem connect_one_record_per_domain:
  "store_inv \<lparr>handle_test = t, shopifyintegration = [], datasnapshot = []\<rparr>
   \<and> (store_inv s \<and> connect_shopify net1 (Some s) p1 = (r1, db1) \<longrightarrow>
        (\<exists>s1. db1 = Some s1 \<and> store_inv s1))
   \<and> (store_inv s \<and> handle_test s = TestsTrue
        \<and> connect_shopify net1 (Some s) p1 = (r1, db1) \<longrightarrow>
        (\<exists>s1 d. db1 = Some s1 \<and> store_inv s1
           \<and> records_of (normalize_domain (payload_domain p1)) s1 = [d]
           \<and> access_token (content d) = payload_access_token p1))
   \<and> (store_inv s \<and> handle_test s = TestsTrue
        \<and> connect_shopify net1 (Some s) p1 = (r1, db1)
        \<and> connect_shopify net2 db1 p2 = (r2, db2)
        \<and> normalize_domain (payload_domain p2) = normalize_domain (payload_domain p1) \<longrightarrow>
        (\<exists>s2 d. db2 = Some s2 \<and> store_inv s2
           \<and> records_of (normalize_domain (payload_domain p1)) s2 = [d]
           \<and> access_token (content d) = payload_access_token p2))
   \<and> stored_integrations (snd (shopify_summary net fault db raw)) = stored_integrations db"
proof (intro conjI impI)
  show "store_inv \<lparr>handle_test = t, shopifyintegration = [], datasnapshot = []\<rparr>"
    by (simp add: store_inv_def)
next
  assume "store_inv s \<and> connect_shopify net1 (Some s) p1 = (r1, db1)"
  then show "\<exists>s1. db1 = Some s1 \<and> store_inv s1"
    using connect_shopify_keeps_inv by blast
next
  assume "store_inv s \<and> handle_test s = TestsTrue
        \<and> connect_shopify net1 (Some s) p1 = (r1, db1)"
  then show "\<exists>s1 d. db1 = Some s1 \<and> store_inv s1
           \<and> records_of (normalize_domain (payload_domain p1)) s1 = [d]
           \<and> access_token (content d) = payload_access_token p1"
    using connect_shopify_inv by blast
next
  assume a: "store_inv s \<and> handle_test s = TestsTrue
        \<and> connect_shopify net1 (Some s) p1 = (r1, db1)
        \<and> connect_shopify net2 db1 p2 = (r2, db2)
        \<and> normalize_domain (payload_domain p2) = normalize_domain (payload_domain p1)"
  then obtain s1 where s1: "db1 = Some s1" "store_inv s1" "handle_test s1 = TestsTrue"
    using connect_shopify_inv by blast
  from a s1 connect_shopify_inv [of s1 net2 p2 r2 db2]
  show "\<exists>s2 d. db2 = Some s2 \<and> store_inv s2
           \<and> records_of (normalize_domain (payload_domain p1)) s2 = [d]
           \<and> access_token (content d) = payload_access_token p2"
    by auto
next
  show "stored_integrations (snd (shopify_summary net fault db raw)) = stored_integrations db"
    by (rule shopify_summary_integrations)
qed

lemmas connect_eval = connect_shopify_def save_integration_def existing_integrations_def
  create_document_shopifyintegration_def fresh_id_def shopify_get_def shopify_get_try_def
  shop_name_of_def set_store_name_def Let_def

theorem connect_one_record_per_domain_witness:
  "connect_shopify (\<lambda>_. Inl (lit ''timed out''))
      (Some \<lparr>handle_test = TestsTrue, shopifyintegration = [], datasnapshot = []\<rparr>)
      \<lparr>payload_domain = lit ''acme'', payload_access_token = lit ''tok1''\<rparr>
     = (Inr \<lparr>ok = True, resp_id = 1, resp_domain = lit ''acme.myshopify.com'',
             verified = False, resp_store_name = JNull\<rparr>,
        Some \<lparr>handle_test = TestsTrue, shopifyintegration =
                [\<lparr>doc_id = 1, content = \<lparr>domain = lit ''acme.myshopify.com'',
                   access_token = lit ''tok1'', store_name = JNull, scopes = JNull\<rparr>\<rparr>],
              datasnapshot = []\<rparr>)
   \<and> connect_shopify (\<lambda>_. Inl (lit ''timed out''))
      (Some \<lparr>handle_test = TestsTrue, shopifyintegration =
                [\<lparr>doc_id = 1, content = \<lparr>domain = lit ''acme.myshopify.com'',
                   access_token = lit ''tok1'', store_name = JNull, scopes = JNull\<rparr>\<rparr>],
              datasnapshot = []\<rparr>)
      \<lparr>payload_domain = lit ''acme.myshopify.com'', payload_access_token = lit ''tok2''\<rparr>
     = (Inr \<lparr>ok = True, resp_id = 1, resp_domain = lit ''acme.myshopify.com'',
             verified = False, resp_store_name = JNull\<rparr>,
        Some \<lparr>handle_test = TestsTrue, shopifyintegration =
                [\<lparr>doc_id = 1, content = \<lparr>domain = lit ''acme.myshopify.com'',
                   access_token = lit ''tok2'', store_name = JNull, scopes = JNull\<rparr>\<rparr>],
              datasnapshot = []\<rparr>)
   \<and> (\<exists>d. records_of (lit ''acme.myshopify.com'')
          \<lparr>handle_test = TestsTrue, shopifyintegration =
                [\<lparr>doc_id = 1, content = \<lparr>domain = lit ''acme.myshopify.com'',
                   access_token = lit ''tok2'', store_name = JNull, scopes = JNull\<rparr>\<rparr>],
              datasnapshot = []\<rparr> = [d]
        \<and> access_token (content d) = lit ''tok2'')"
proof -
  let ?net = "\<lambda>_::request. Inl (lit ''timed out'') :: pystr + response"
  let ?s0 = "\<lparr>handle_test = TestsTrue, shopifyintegration = [], datasnapshot = []\<rparr>"
  let ?p1 = "\<lparr>payload_domain = lit ''acme'', payload_access_token = lit ''tok1''\<rparr>"
  let ?p2 = "\<lparr>payload_domain = lit ''acme.myshopify.com'', payload_access_token = lit ''tok2''\<rparr>"
  let ?r = "Inr \<lparr>ok = True, resp_id = 1, resp_domain = lit ''acme.myshopify.com'',
             verified = False, resp_store_name = JNull\<rparr> :: exn + connect_response"
  let ?s1 = "\<lparr>handle_test = TestsTrue, shopifyintegration =
                [\<lparr>doc_id = 1, content = \<lparr>domain = lit ''acme.myshopify.com'',
                   access_token = lit ''tok1'', store_name = JNull, scopes = JNull\<rparr>\<rparr>],
              datasnapshot = []\<rparr>"
  let ?s2 = "\<lparr>handle_test = TestsTrue, shopifyintegration =
                [\<lparr>doc_id = 1, content = \<lparr>domain = lit ''acme.myshopify.com'',
                   access_token = lit ''tok2'', store_name = JNull, scopes = JNull\<rparr>\<rparr>],
              datasnapshot = []\<rparr>"
  have c1: "connect_shopify ?net (Some ?s0) ?p1 = (?r, Some ?s1)"
    by (simp add: connect_eval normalize_example_2)
  have c2: "connect_shopify ?net (Some ?s1) ?p2 = (?r, Some ?s2)"
    by (simp add: connect_eval normalize_example_3)
  have n: "normalize_domain (payload_domain ?p2) = normalize_domain (payload_domain ?p1)"
    by (simp add: normalize_example_2 normalize_example_3)
  have i: "store_inv ?s0"
    using connect_one_record_per_domain [of TestsTrue] by blast
  have h: "handle_test ?s0 = TestsTrue" by simp
  from connect_one_record_per_domain
    [where s = ?s0 and ?net1.0 = ?net and ?p1.0 = ?p1 and ?r1.0 = ?r and ?db1.0 = "Some ?s1"
       and ?net2.0 = ?net and ?p2.0 = ?p2 and ?r2.0 = ?r and ?db2.0 = "Some ?s2"]
    i h c1 c2 n
  have "\<exists>s2 d. Some ?s2 = Some s2 \<and> store_inv s2
           \<and> records_of (normalize_domain (payload_domain ?p1)) s2 = [d]
           \<and> access_token (content d) = payload_access_token ?p2"
    by blast
  then have "\<exists>d. records_of (lit ''acme.myshopify.com'') ?s2 = [d]
        \<and> access_token (content d) = lit ''tok2''"
    by (simp add: normalize_example_2)
  with c1 c2 show ?thesis by blast
qed

text \<open>
  C7 as stated fails: with no database configured, two connect requests for the same
  domain both return a response and leave no integration record at all.
\<close>

theorem connect_twice_without_store:
  "connect_shopify (\<lambda>_. Inl (lit ''timed out'')) None
      \<lparr>payload_domain = lit ''acme'', payload_access_token = lit ''tok1''\<rparr>
     = (Inr \<lparr>ok = True, resp_id = 0, resp_domain = lit ''acme.myshopify.com'',
             verified = False, resp_store_name = JNull\<rparr>, None)
   \<and> connect_shopify (\<lambda>_. Inl (lit ''timed out'')) None
      \<lparr>payload_domain = lit ''acme'', payload_access_token = lit ''tok2''\<rparr>
     = (Inr \<lparr>ok = True, resp_id = 0, resp_domain = lit ''acme.myshopify.com'',
             verified = False, resp_store_name = JNull\<rparr>, None)
   \<and> stored_integrations None = []"
  by (simp add: connect_eval normalize_example_2 stored_integrations_def)

text \<open>
  C2, the failing input: with no database configured, a verification that succeeds and
  brings a shop name makes connect subscript \<open>db\<close>, which is \<open>None\<close>: the request ends
  with \<open>TypeError\<close>.
\<close>

theorem connect_without_store_raises:
  "connect_shopify
      (\<lambda>_. Inr \<lparr>status_code = 200, resp_text = [],
                 resp_json = Inr (JObj [(lit ''shop'', JObj [(lit ''name'', JStr (lit ''Acme''))])])\<rparr>)
      None \<lparr>payload_domain = lit ''acme'', payload_access_token = lit ''tok''\<rparr>
     = (Inl TypeError, None)"
  by (simp add: connect_eval normalize_example_2)

lemma shop_name_of_ok: "shop_ok data \<Longrightarrow> shop_name_of data = Inr (shop_name data)"
  by (cases data)
     (auto simp: shop_ok_def shop_name_of_def shop_name_def split: option.splits json.splits if_splits)

text \<open>
  C8 (amended). For a connect request on a configured store whose handle tests true: if
  the \<open>shop.json\<close>
  call returns an error with a non-empty error string, the response has
  \<open>verified = false\<close> and no store name, and the record of the domain is there with the
  token of the request; if the call returns no error and a body in which the shop name can
  be looked up, the response has \<open>verified = true\<close> and the shop name of the body as store
  name, the record of the domain has the token of the request, and a shop name that is
  true (a non-empty string) is stored on that record.
\<close>

theorem connect_verification:
  assumes g: "shopify_get net (normalize_domain (payload_domain p)) (payload_access_token p)
      (lit ''shop.json'') None = Inr (data, err)"
    and h: "handle_test s = TestsTrue"
  shows "(err \<noteq> None \<and> err \<noteq> Some [] \<longrightarrow>
           (\<exists>resp s' d. connect_shopify net (Some s) p = (Inr resp, Some s')
              \<and> \<not> verified resp \<and> resp_store_name resp = JNull
              \<and> find (\<lambda>d. domain (content d) = normalize_domain (payload_domain p))
                    (shopifyintegration s') = Some d
              \<and> access_token (content d) = payload_access_token p))
       \<and> (err = None \<and> shop_ok data \<longrightarrow>
           (\<exists>resp s' d. connect_shopify net (Some s) p = (Inr resp, Some s')
              \<and> verified resp \<and> resp_store_name resp = shop_name data
              \<and> find (\<lambda>d. domain (content d) = normalize_domain (payload_domain p))
                    (shopifyintegration s') = Some d
              \<and> access_token (content d) = payload_access_token p
              \<and> (truthy (shop_name data) \<longrightarrow> store_name (content d) = shop_name data)))"
proof -
  let ?host = "normalize_domain (payload_domain p)"
  let ?doc = "\<lparr>domain = ?host, access_token = payload_access_token p,
       store_name = JNull, scopes = JNull\<rparr>"
  let ?P = "\<lambda>d. domain (content d) = ?host"
  from save_integration_Some [OF h, of ?doc]
  obtain i s1 d where sv: "save_integration (Some s) ?doc = (Inr i, Some s1)"
    and f: "find ?P (shopifyintegration s1) = Some d" and d: "content d = ?doc"
    by auto
  note c = connect_shopify_Some [OF sv g]
  have a: "\<exists>resp s' d. connect_shopify net (Some s) p = (Inr resp, Some s')
              \<and> \<not> verified resp \<and> resp_store_name resp = JNull
              \<and> find ?P (shopifyintegration s') = Some d
              \<and> access_token (content d) = payload_access_token p"
    if "err \<noteq> None \<and> err \<noteq> Some []"
  proof -
    from that obtain e where e: "err = Some e" "e \<noteq> []" by auto
    then have "data = JNull" using g shopify_get_err_body by blast
    then have "shop_name_of data = Inr JNull" by (simp add: shop_name_of_def)
    then show ?thesis using c e f d by simp
  qed
  have b: "\<exists>resp s' d. connect_shopify net (Some s) p = (Inr resp, Some s')
              \<and> verified resp \<and> resp_store_name resp = shop_name data
              \<and> find ?P (shopifyintegration s') = Some d
              \<and> access_token (content d) = payload_access_token p
              \<and> (truthy (shop_name data) \<longrightarrow> store_name (content d) = shop_name data)"
    if "err = None \<and> shop_ok data"
  proof (cases "truthy (shop_name data)")
    case False
    then show ?thesis using c that f d by (simp add: shop_name_of_ok)
  next
    case True
    let ?f = "\<lambda>d. d\<lparr>content := (content d)\<lparr>store_name := shop_name data\<rparr>\<rparr>"
    have "find ?P (update_one ?P ?f (shopifyintegration s1)) = Some (?f d)"
      using f by (intro find_update_same) (simp_all add: d)
    then show ?thesis using c that True d by (simp add: shop_name_of_ok)
  qed
  from a b show ?thesis by blast
qed

theorem connect_verification_witness:
  "connect_shopify (\<lambda>_. Inr \<lparr>status_code = 401, resp_text = lit ''Unauthorized'',
                              resp_json = Inl (lit ''Expecting value'')\<rparr>)
      (Some \<lparr>handle_test = TestsTrue, shopifyintegration = [], datasnapshot = []\<rparr>)
      \<lparr>payload_domain = lit ''acme'', payload_access_token = lit ''bad''\<rparr>
     = (Inr \<lparr>ok = True, resp_id = 1, resp_domain = lit ''acme.myshopify.com'',
             verified = False, resp_store_name = JNull\<rparr>,
        Some \<lparr>handle_test = TestsTrue, shopifyintegration =
                [\<lparr>doc_id = 1, content = \<lparr>domain = lit ''acme.myshopify.com'',
                   access_token = lit ''bad'', store_name = JNull, scopes = JNull\<rparr>\<rparr>],
              datasnapshot = []\<rparr>)
   \<and> connect_shopify
      (\<lambda>_. Inr \<lparr>status_code = 200, resp_text = [],
                 resp_json = Inr (JObj [(lit ''shop'', JObj [(lit ''name'', JStr (lit ''Acme''))])])\<rparr>)
      (Some \<lparr>handle_test = TestsTrue, shopifyintegration = [], datasnapshot = []\<rparr>)
      \<lparr>payload_domain = lit ''acme'', payload_access_token = lit ''tok''\<rparr>
     = (Inr \<lparr>ok = True, resp_id = 1, resp_domain = lit ''acme.myshopify.com'',
             verified = True, resp_store_name = JStr (lit ''Acme'')\<rparr>,
        Some \<lparr>handle_test = TestsTrue, shopifyintegration =
                [\<lparr>doc_id = 1, content = \<lparr>domain = lit ''acme.myshopify.com'',
                   access_token = lit ''tok'', store_name = JStr (lit ''Acme''), scopes = JNull\<rparr>\<rparr>],
              datasnapshot = []\<rparr>)"
proof -
  let ?s0 = "\<lparr>handle_test = TestsTrue, shopifyintegration = [], datasnapshot = []\<rparr>"
  let ?n1 = "\<lambda>_::request. Inr \<lparr>status_code = 401, resp_text = lit ''Unauthorized'',
                              resp_json = Inl (lit ''Expecting value'')\<rparr> :: pystr + response"
  let ?p1 = "\<lparr>payload_domain = lit ''acme'', payload_access_token = lit ''bad''\<rparr>"
  let ?e = "lit ''HTTP '' @ str_int 401 @ lit '': '' @ take 200 (lit ''Unauthorized'')"
  let ?body = "JObj [(lit ''shop'', JObj [(lit ''name'', JStr (lit ''Acme''))])]"
  let ?n2 = "\<lambda>_::request. Inr \<lparr>status_code = 200, resp_text = [],
                 resp_json = Inr ?body\<rparr> :: pystr + response"
  let ?p2 = "\<lparr>payload_domain = lit ''acme'', payload_access_token = lit ''tok''\<rparr>"
  have g1: "shopify_get ?n1 (normalize_domain (payload_domain ?p1)) (payload_access_token ?p1)
      (lit ''shop.json'') None = Inr (JNull, Some ?e)"
    by (simp add: shopify_get_def shopify_get_try_def)
  have e: "Some ?e \<noteq> None \<and> Some ?e \<noteq> Some []" by simp
  have h0: "handle_test ?s0 = TestsTrue" by simp
  from connect_verification [OF g1 h0] e
  obtain resp s' d where r1: "connect_shopify ?n1 (Some ?s0) ?p1 = (Inr resp, Some s')"
    and "\<not> verified resp" "resp_store_name resp = JNull"
    by blast
  then have 1: "connect_shopify ?n1 (Some ?s0) ?p1
     = (Inr \<lparr>ok = True, resp_id = 1, resp_domain = lit ''acme.myshopify.com'',
             verified = False, resp_store_name = JNull\<rparr>,
        Some \<lparr>handle_test = TestsTrue, shopifyintegration =
                [\<lparr>doc_id = 1, content = \<lparr>domain = lit ''acme.myshopify.com'',
                   access_token = lit ''bad'', store_name = JNull, scopes = JNull\<rparr>\<rparr>],
              datasnapshot = []\<rparr>)"
    by (simp add: connect_eval normalize_example_2 split: if_splits)
  have g2: "shopify_get ?n2 (normalize_domain (payload_domain ?p2)) (payload_access_token ?p2)
      (lit ''shop.json'') None = Inr (?body, None)"
    by (simp add: shopify_get_def shopify_get_try_def)
  have ok: "shop_ok ?body" by (simp add: shop_ok_def)
  have nm: "shop_name ?body = JStr (lit ''Acme'')" by (simp add: shop_name_def)
  from connect_verification [OF g2 h0] ok
  obtain resp2 s2 d2 where r2: "connect_shopify ?n2 (Some ?s0) ?p2 = (Inr resp2, Some s2)"
    and "verified resp2" "resp_store_name resp2 = shop_name ?body"
    by blast
  then have 2: "connect_shopify ?n2 (Some ?s0) ?p2
     = (Inr \<lparr>ok = True, resp_id = 1, resp_domain = lit ''acme.myshopify.com'',
             verified = True, resp_store_name = JStr (lit ''Acme'')\<rparr>,
        Some \<lparr>handle_test = TestsTrue, shopifyintegration =
                [\<lparr>doc_id = 1, content = \<lparr>domain = lit ''acme.myshopify.com'',
                   access_token = lit ''tok'', store_name = JStr (lit ''Acme''), scopes = JNull\<rparr>\<rparr>],
              datasnapshot = []\<rparr>)"
    by (simp add: connect_eval normalize_example_2 nm split: if_splits)
  from 1 2 show ?thesis by blast
qed

text \<open>
  C8 as stated fails. With no database configured nothing is persisted when the
  verification fails. With a database, a 200 response with the body \<open>{"shop": null}\<close>
  ends the request with \<open>AttributeError\<close>, after the record was saved; and a request that
  raises an exception with an empty description gives \<open>verified = true\<close>.
\<close>

theorem connect_not_always_verified_and_saved:
  "connect_shopify (\<lambda>_. Inl (lit ''timed out'')) None
      \<lparr>payload_domain = lit ''acme'', payload_access_token = lit ''tok''\<rparr>
     = (Inr \<lparr>ok = True, resp_id = 0, resp_domain = lit ''acme.myshopify.com'',
             verified = False, resp_store_name = JNull\<rparr>, None)
   \<and> connect_shopify
      (\<lambda>_. Inr \<lparr>status_code = 200, resp_text = [],
                 resp_json = Inr (JObj [(lit ''shop'', JNull)])\<rparr>)
      (Some \<lparr>handle_test = TestsTrue, shopifyintegration = [], datasnapshot = []\<rparr>)
      \<lparr>payload_domain = lit ''acme'', payload_access_token = lit ''tok''\<rparr>
     = (Inl AttributeError,
        Some \<lparr>handle_test = TestsTrue, shopifyintegration =
                [\<lparr>doc_id = 1, content = \<lparr>domain = lit ''acme.myshopify.com'',
                   access_token = lit ''tok'', store_name = JNull, scopes = JNull\<rparr>\<rparr>],
              datasnapshot = []\<rparr>)
   \<and> connect_shopify (\<lambda>_. Inl []) (Some \<lparr>handle_test = TestsTrue, shopifyintegration = [], datasnapshot = []\<rparr>)
      \<lparr>payload_domain = lit ''acme'', payload_access_token = lit ''tok''\<rparr>
     = (Inr \<lparr>ok = True, resp_id = 1, resp_domain = lit ''acme.myshopify.com'',
             verified = True, resp_store_name = JNull\<rparr>,
        Some \<lparr>handle_test = TestsTrue, shopifyintegration =
                [\<lparr>doc_id = 1, content = \<lparr>domain = lit ''acme.myshopify.com'',
                   access_token = lit ''tok'', store_name = JNull, scopes = JNull\<rparr>\<rparr>],
              datasnapshot = []\<rparr>)"
  by (simp add: connect_eval normalize_example_2)

end
